theory Spec2Isabelle
  imports Complex_Main
begin

section \<open>Galactic Defender: the simulation core of MiniGames3.py\<close>

text \<open>
  The theory embeds the gameplay part of \<^verbatim>\<open>MiniGames3.py\<close>: the entities, the
  per-tick update of the play state, the wave scheduler, the bomb, the power-ups and the
  shop. Conventions of the embedding:
  \<^item> Python floats are idealised as \<^typ>\<open>real\<close>; Python ints that take part in integer
    division or are shown as counters stay \<^typ>\<open>int\<close>.
  \<^item> Every class becomes a record. Field names carry a prefix (\<open>b_\<close>, \<open>l_\<close>, \<open>p_\<close>, \<open>e_\<close>, \<open>u_\<close>) where several
    classes use the same attribute name (\<open>x\<close>, \<open>y\<close>, \<open>r\<close>, \<open>t\<close>, \<open>hp\<close>, \<open>dmg\<close>).
  \<^item> Colours, fonts, surfaces, sounds and the particle system are rendering output and are
    not part of the state; no gameplay field is computed from them.
  \<^item> The module \<^verbatim>\<open>random\<close> is a tape of draws from the unit interval, consumed from the
    front by the gameplay calls in the order in which the code makes them. The draws that
    the (cosmetic) particle system takes are not on the tape.
  \<^item> \<^verbatim>\<open>time.time()\<close> and the keyboard are inputs of the tick.
\<close>

subsection \<open>Configuration and helpers\<close>

definition WIDTH :: int where "WIDTH = 1000"
definition HEIGHT :: int where "HEIGHT = 650"
definition PLAYER_MAX_HP :: int where "PLAYER_MAX_HP = 120"
definition PLAYER_BASE_SPEED :: int where "PLAYER_BASE_SPEED = 300"
definition PLAYER_DASH_SPEED :: int where "PLAYER_DASH_SPEED = 700"
definition PLAYER_DASH_COOLDOWN :: real where "PLAYER_DASH_COOLDOWN = 1.0"
definition BULLET_SPEED :: int where "BULLET_SPEED = 700"
definition LASER_DURATION :: real where "LASER_DURATION = 0.25"

text \<open>\<^verbatim>\<open>def clamp(v, lo, hi): return max(lo, min(hi, v))\<close>\<close>

definition clamp :: "'a::linorder \<Rightarrow> 'a \<Rightarrow> 'a \<Rightarrow> 'a" where
  "clamp v lo hi = max lo (min hi v)"

text \<open>\<^verbatim>\<open>math.hypot\<close>, \<^verbatim>\<open>math.radians\<close> and the truncating \<^verbatim>\<open>int()\<close> of a float.\<close>

definition hypot :: "real \<Rightarrow> real \<Rightarrow> real" where
  "hypot a b = sqrt (a\<^sup>2 + b\<^sup>2)"

definition radians :: "real \<Rightarrow> real" where
  "radians a = a * pi / 180"

definition py_int :: "real \<Rightarrow> int" where
  "py_int v = (if 0 \<le> v then \<lfloor>v\<rfloor> else \<lceil>v\<rceil>)"

datatype error = IndexError

text \<open>
  \<^verbatim>\<open>xs[i]\<close> on a list: an index from 0 up to the length reads from the front, one
  from minus the length up to -1 reads from the back, and every other index raises
  \<^verbatim>\<open>IndexError\<close>.
\<close>

definition py_index :: "'a list \<Rightarrow> int \<Rightarrow> error + 'a" where
  "py_index xs i =
     (if 0 \<le> i \<and> i < int (length xs) then Inr (xs ! nat i)
      else if - int (length xs) \<le> i \<and> i < 0 then Inr (xs ! nat (int (length xs) + i))
      else Inl IndexError)"

text \<open>\<^verbatim>\<open>d.get(k, 0)\<close> on a dictionary with integer values.\<close>

definition dict_get :: "(string \<rightharpoonup> int) \<Rightarrow> string \<Rightarrow> int" where
  "dict_get d k = (case d k of None \<Rightarrow> 0 | Some v \<Rightarrow> v)"

subsection \<open>The random source\<close>

type_synonym tape = "real list"

text \<open>One call of \<^verbatim>\<open>random.random()\<close>: the next draw and the rest of the tape.\<close>

fun draw :: "tape \<Rightarrow> real \<times> tape" where
  "draw [] = (0, [])"
| "draw (u # us) = (u, us)"

text \<open>
  \<^verbatim>\<open>random.uniform(a, b)\<close> is \<^verbatim>\<open>a + (b - a) * random()\<close>. \<^verbatim>\<open>randint\<close> and \<^verbatim>\<open>choice\<close>
  pick an index below a bound; the index is kept inside the bound whatever the draw is.
\<close>

definition uniform :: "real \<Rightarrow> real \<Rightarrow> real \<Rightarrow> real" where
  "uniform a b u = a + (b - a) * u"

definition randbelow :: "int \<Rightarrow> real \<Rightarrow> int" where
  "randbelow n u = max 0 (min (n - 1) \<lfloor>u * of_int n\<rfloor>)"

definition randint :: "int \<Rightarrow> int \<Rightarrow> real \<Rightarrow> int" where
  "randint a b u = a + randbelow (b - a + 1) u"

subsection \<open>Entities\<close>

datatype owner = OwnPlayer | OwnEnemy

record bullet =
  b_x :: real
  b_y :: real
  b_vx :: real
  b_vy :: real
  b_owner :: owner
  b_dmg :: int
  b_r :: int

text \<open>\<^verbatim>\<open>Bullet.update\<close> and \<^verbatim>\<open>Bullet.alive\<close>.\<close>

definition bullet_update :: "real \<Rightarrow> bullet \<Rightarrow> bullet" where
  "bullet_update dt b = b\<lparr>b_x := b_x b + b_vx b * dt, b_y := b_y b + b_vy b * dt\<rparr>"

definition bullet_alive :: "bullet \<Rightarrow> bool" where
  "bullet_alive b \<longleftrightarrow>
     -50 < b_x b \<and> b_x b < of_int WIDTH + 50 \<and> -50 < b_y b \<and> b_y b < of_int HEIGHT + 50"

record laser =
  l_x :: real
  l_y :: real
  l_dx :: real
  l_dy :: real
  l_life :: real
  l_t :: real
  l_dmg :: int

definition laser_update :: "real \<Rightarrow> laser \<Rightarrow> laser" where
  "laser_update dt l = l\<lparr>l_t := l_t l + dt\<rparr>"

definition laser_alive :: "laser \<Rightarrow> bool" where
  "laser_alive l \<longleftrightarrow> l_t l < l_life l"

datatype weapon = Single | Spread | Laser

record player =
  p_x :: real
  p_y :: real
  p_r :: int
  hp :: int
  maxhp :: int
  speed :: int
  dash_cd :: real
  dash_time :: real
  coins :: int
  score :: int
  weapon_index :: int
  bullets_cool :: real
  rapid :: real
  shield :: real
  bombs :: int
  upgrades :: "string \<rightharpoonup> int"

definition weapons :: "weapon list" where
  "weapons = [Single, Spread, Laser]"

text \<open>\<^verbatim>\<open>Player.__init__\<close>, \<^verbatim>\<open>Player.switch_weapon\<close> and \<^verbatim>\<open>Player.update\<close>.\<close>

definition Player :: "real \<Rightarrow> real \<Rightarrow> player" where
  "Player x y =
     \<lparr>p_x = x, p_y = y, p_r = 16, hp = PLAYER_MAX_HP, maxhp = PLAYER_MAX_HP,
      speed = PLAYER_BASE_SPEED, dash_cd = 0, dash_time = 0, coins = 0, score = 0,
      weapon_index = 0, bullets_cool = 0, rapid = 0, shield = 0, bombs = 2,
      upgrades = [''hp'' \<mapsto> 0, ''speed'' \<mapsto> 0, ''damage'' \<mapsto> 0]\<rparr>"

definition switch_weapon :: "int \<Rightarrow> player \<Rightarrow> player" where
  "switch_weapon dirn p =
     p\<lparr>weapon_index := (weapon_index p + dirn) mod int (length weapons)\<rparr>"

definition Player_update :: "real \<Rightarrow> player \<Rightarrow> player" where
  "Player_update dt p =
     p\<lparr>dash_cd := max 0 (dash_cd p - dt),
       bullets_cool := max 0 (bullets_cool p - dt),
       rapid := max 0 (rapid p - dt),
       shield := max 0 (shield p - dt)\<rparr>"

datatype kind = Chaser | Zig | Shooter | Boss

record enemy =
  e_x :: real
  e_y :: real
  e_kind :: kind
  level :: int
  e_hp :: real
  e_r :: int
  e_speed :: int
  e_t :: real
  cool :: real

text \<open>
  \<^verbatim>\<open>Enemy.__init__\<close>; the last argument is the draw behind
  \<^verbatim>\<open>random.uniform(0.6, 1.8)\<close>.
\<close>

definition Enemy :: "real \<Rightarrow> real \<Rightarrow> kind \<Rightarrow> int \<Rightarrow> real \<Rightarrow> enemy" where
  "Enemy x y k lvl u =
     (let basehp = 20 + lvl * 6 in
      \<lparr>e_x = x, e_y = y, e_kind = k, level = lvl,
       e_hp = of_int (if k \<noteq> Boss then basehp else basehp * 6),
       e_r = (if k \<noteq> Boss then 12 else 36),
       e_speed = (if k \<noteq> Boss then 90 + lvl * 8 else 45),
       e_t = 0, cool = uniform 0.6 1.8 u\<rparr>)"

text \<open>
  \<^verbatim>\<open>Enemy.update(dt, player, bullets)\<close>: the enemy after the step and the bullets it
  appends to the shared bullet list. The direction to the player is read before the
  enemy moves; a shooter's bullet starts at the position after the move.
\<close>

definition enemy_update :: "real \<Rightarrow> player \<Rightarrow> enemy \<Rightarrow> enemy \<times> bullet list" where
  "enemy_update dt p e0 =
     (let e = e0\<lparr>e_t := e_t e0 + dt\<rparr>;
          dx = p_x p - e_x e;
          dy = p_y p - e_y e;
          d = hypot dx dy + 0.000001;
          (e1, shots) =
            (case e_kind e of
               Chaser \<Rightarrow>
                 (e\<lparr>e_x := e_x e + dx / d * of_int (e_speed e) * dt,
                    e_y := e_y e + dy / d * of_int (e_speed e) * dt\<rparr>, [])
             | Zig \<Rightarrow>
                 (let perpx = - dy / d; perpy = dx / d; wav = sin (e_t e * 4) * 80 in
                  (e\<lparr>e_x := e_x e + (dx / d * (of_int (e_speed e) * 0.9) + perpx * wav * 0.01) * dt,
                     e_y := e_y e + (dy / d * (of_int (e_speed e) * 0.9) + perpy * wav * 0.01) * dt\<rparr>,
                   []))
             | Shooter \<Rightarrow>
                 (let em = e\<lparr>e_x := e_x e + dx / d * (of_int (e_speed e) * 0.6) * dt,
                              e_y := e_y e + dy / d * (of_int (e_speed e) * 0.6) * dt\<rparr>;
                      ec = em\<lparr>cool := cool em - dt\<rparr>
                  in if cool ec \<le> 0
                     then (ec\<lparr>cool := 0.9 - min 0.5 (of_int (level ec) * 0.03)\<rparr>,
                           [\<lparr>b_x = e_x ec, b_y = e_y ec,
                             b_vx = dx / d * (of_int BULLET_SPEED * 0.6),
                             b_vy = dy / d * (of_int BULLET_SPEED * 0.6),
                             b_owner = OwnEnemy, b_dmg = 8, b_r = 4\<rparr>])
                     else (ec, []))
             | Boss \<Rightarrow>
                 (let ec = e\<lparr>cool := cool e - dt\<rparr>
                  in if cool ec \<le> 0
                     then (ec\<lparr>cool := 0.35\<rparr>,
                           map (\<lambda>i. let ang = int i * 30;
                                        rad = radians (of_int (ang + py_int (e_t ec * 40) mod 360))
                                    in \<lparr>b_x = e_x ec, b_y = e_y ec,
                                        b_vx = cos rad * 200, b_vy = sin rad * 200,
                                        b_owner = OwnEnemy, b_dmg = 10, b_r = 5\<rparr>)
                               [0 ..< 12])
                     else (ec, [])))
      in (e1\<lparr>e_x := clamp (e_x e1) (-100) (of_int WIDTH + 100),
              e_y := clamp (e_y e1) (-100) (of_int HEIGHT + 100)\<rparr>, shots))"

datatype ptype = Heal | Rapid | ShieldUp | BombUp | Coin

record powerup =
  u_x :: real
  u_y :: real
  u_type :: ptype
  u_t :: real

subsection \<open>The game object\<close>

datatype gstate = Menu | Play | Pause | Shop | Gameover

datatype phase = Interlude | Active

record game =
  running :: bool
  state :: gstate
  hiscore :: int
  persist_upgrades :: "string \<rightharpoonup> int"
  player :: player
  enemies :: "enemy list"
  bullets :: "bullet list"
  lasers :: "laser list"
  powerups :: "powerup list"
  wave :: int
  wave_time :: real
  spawn_timer :: real
  wave_state :: phase
  interlude_time :: real
  difficulty :: real
  last_bomb :: real
  last_interlude :: real
  rng :: tape

text \<open>\<^verbatim>\<open>Game.reset_run\<close> and \<^verbatim>\<open>Game.start_game\<close>.\<close>

definition reset_run :: "game \<Rightarrow> game" where
  "reset_run g =
     (let p0 = Player (of_int WIDTH * 0.5) (of_int HEIGHT * 0.7);
          p1 = p0\<lparr>maxhp := PLAYER_MAX_HP + dict_get (persist_upgrades g) ''hp'' * 20\<rparr>;
          p2 = p1\<lparr>hp := maxhp p1\<rparr>;
          p3 = p2\<lparr>speed := PLAYER_BASE_SPEED + dict_get (persist_upgrades g) ''speed'' * 30\<rparr>
      in g\<lparr>player := p3, enemies := [], bullets := [], lasers := [],
           wave := 0, wave_time := 0, spawn_timer := 0,
           wave_state := Interlude, interlude_time := 4.0, difficulty := 1.0\<rparr>)"

definition start_game :: "game \<Rightarrow> game" where
  "start_game g = (reset_run g)\<lparr>state := Play\<rparr>"

subsection \<open>Spawning\<close>

datatype side = SideTop | SideBottom | SideLeft | SideRight

text \<open>
  \<^verbatim>\<open>random.choice(['top','bottom','left','right'])\<close> and
  \<^verbatim>\<open>random.choices(['chaser','shooter','zig'], weights=[0.5,0.25,0.25])[0]\<close>; the
  latter bisects the cumulative weights \<open>[0.5, 0.75, 1.0]\<close> at the draw.
\<close>

definition choice_side :: "real \<Rightarrow> side" where
  "choice_side u = [SideTop, SideBottom, SideLeft, SideRight] ! nat (randbelow 4 u)"

definition choices_kind :: "real \<Rightarrow> kind" where
  "choices_kind u = (if u < 0.5 then Chaser else if u < 0.75 then Shooter else Zig)"

text \<open>
  \<^verbatim>\<open>Game.spawn_enemy_edge(kind=None, level=1)\<close>. The draws are taken in the order of the
  code: the side, the coordinate along it, the kind (only when none is given) and the fire
  cooldown inside \<^verbatim>\<open>Enemy.__init__\<close>.
\<close>

definition spawn_enemy_edge :: "kind option \<Rightarrow> int \<Rightarrow> game \<Rightarrow> game" where
  "spawn_enemy_edge knd lvl g =
     (let (u1, t1) = draw (rng g);
          sd = choice_side u1;
          (u2, t2) = draw t1;
          (x, y) =
            (if sd = SideTop then (of_int (randint 50 (WIDTH - 50) u2), -40)
             else if sd = SideBottom then (of_int (randint 50 (WIDTH - 50) u2), of_int HEIGHT + 40)
             else if sd = SideLeft then (-40, of_int (randint 50 (HEIGHT - 50) u2))
             else (of_int WIDTH + 40, of_int (randint 50 (HEIGHT - 50) u2)));
          (k, t3) =
            (case knd of
               Some k' \<Rightarrow> (k', t2)
             | None \<Rightarrow> (let (u3, t3') = draw t2 in (choices_kind u3, t3')));
          (u4, t4) = draw t3
      in g\<lparr>enemies := enemies g @ [Enemy x y k lvl u4], rng := t4\<rparr>)"

text \<open>\<^verbatim>\<open>Game.spawn_wave\<close>; \<open>spawn_n\<close> is its \<^verbatim>\<open>for i in range(n)\<close> loop.\<close>

fun spawn_n :: "nat \<Rightarrow> int \<Rightarrow> game \<Rightarrow> game" where
  "spawn_n 0 lvl g = g"
| "spawn_n (Suc n) lvl g = spawn_n n lvl (spawn_enemy_edge None lvl g)"

definition spawn_wave :: "game \<Rightarrow> game" where
  "spawn_wave g =
     (let g1 = g\<lparr>wave := wave g + 1\<rparr>;
          g2 = g1\<lparr>difficulty := 1 + of_int (wave g1) * 0.12\<rparr>;
          n = min (4 + wave g2 * 2) 40;
          g3 = spawn_n (nat n) (1 + wave g2 div 3) g2
      in if wave g3 mod 5 = 0
         then (let (u, t) = draw (rng g3)
               in g3\<lparr>enemies := enemies g3 @ [Enemy (of_int WIDTH / 2) (-120) Boss (3 + wave g3 div 5) u],
                     rng := t\<rparr>)
         else g3)"

subsection \<open>Input handling of the play state\<close>

text \<open>
  The input snapshot of one tick: the keys that \<^verbatim>\<open>pygame.key.get_pressed()\<close> reports, the
  joystick readings (axis 0, axis 1, button 0) when a joystick is attached, and the readings
  of \<^verbatim>\<open>time.time()\<close>: \<open>clock1\<close> in the bomb guard, \<open>clock2\<close> stored in
  \<^verbatim>\<open>last_bomb\<close>, \<open>clock3\<close> stored in \<^verbatim>\<open>last_interlude\<close>.
\<close>

record inputs =
  K_a :: bool
  K_LEFT :: bool
  K_d :: bool
  K_RIGHT :: bool
  K_w :: bool
  K_UP :: bool
  K_s :: bool
  K_DOWN :: bool
  K_SPACE :: bool
  K_LSHIFT :: bool
  K_z :: bool
  K_j :: bool
  K_q :: bool
  K_e :: bool
  K_x :: bool
  K_k :: bool
  joystick :: "(real \<times> real \<times> bool) option"
  clock1 :: real
  clock2 :: real
  clock3 :: real

text \<open>
  \<^verbatim>\<open>Game.bomb_explode\<close>. The loop runs over a snapshot of the enemy list and removes
  objects from the live list by identity; \<open>kept\<close> holds the enemies already visited that
  stay, so the live list is \<open>kept\<close> followed by the enemies still to visit.
\<close>

fun bomb_loop :: "enemy list \<Rightarrow> enemy list \<Rightarrow> int \<Rightarrow> game \<Rightarrow> game \<times> int" where
  "bomb_loop kept [] killed g = (g\<lparr>enemies := kept\<rparr>, killed)"
| "bomb_loop kept (e # es) killed g =
     (let p = player g; rad = (180::int) in
      if (e_x e - p_x p)\<^sup>2 + (e_y e - p_y p)\<^sup>2 \<le> of_int (rad * rad)
      then bomb_loop kept es (killed + 1) (g\<lparr>player := p\<lparr>score := score p + 15\<rparr>\<rparr>)
      else bomb_loop (kept @ [e]) es killed g)"

definition bomb_explode :: "game \<Rightarrow> game" where
  "bomb_explode g =
     (let (g1, killed) = bomb_loop [] (enemies g) 0 g
      in if killed > 0
         then g1\<lparr>player := (player g1)\<lparr>coins := coins (player g1) + killed * 2\<rparr>\<rparr>
         else g1)"

text \<open>
  \<^verbatim>\<open>Game.input_play\<close>, in the parts the code marks with comments: the direction of
  movement (joystick, keyboard, normalisation), the dash and the movement with the clamp,
  weapon switching, the bomb and firing.
\<close>

definition move_dir :: "inputs \<Rightarrow> real \<times> real" where
  "move_dir inp =
     (let mx0 = (case joystick inp of
                   Some (ax0, ax1, b0) \<Rightarrow> (if \<bar>ax0\<bar> > 0.1 then ax0 else 0)
                 | None \<Rightarrow> 0);
          my0 = (case joystick inp of
                   Some (ax0, ax1, b0) \<Rightarrow> (if \<bar>ax1\<bar> > 0.1 then ax1 else 0)
                 | None \<Rightarrow> 0);
          mx1 = (if K_a inp \<or> K_LEFT inp then mx0 - 1 else mx0);
          mx2 = (if K_d inp \<or> K_RIGHT inp then mx1 + 1 else mx1);
          my1 = (if K_w inp \<or> K_UP inp then my0 - 1 else my0);
          my2 = (if K_s inp \<or> K_DOWN inp then my1 + 1 else my1);
          vlen = hypot mx2 my2
      in if vlen > 0 then (mx2 / vlen, my2 / vlen) else (mx2, my2))"

definition input_move :: "real \<Rightarrow> inputs \<Rightarrow> game \<Rightarrow> game" where
  "input_move dt inp g =
     (let (move_x, move_y) = move_dir inp;
          p = player g;
          p1 = (if (K_SPACE inp \<or> K_LSHIFT inp) \<and> dash_cd p \<le> 0
                then p\<lparr>dash_cd := PLAYER_DASH_COOLDOWN,
                       p_x := p_x p + move_x * of_int PLAYER_DASH_SPEED * 0.12,
                       p_y := p_y p + move_y * of_int PLAYER_DASH_SPEED * 0.12\<rparr>
                else p);
          p2 = p1\<lparr>p_x := p_x p1 + move_x * of_int (speed p1) * dt,
                  p_y := p_y p1 + move_y * of_int (speed p1) * dt\<rparr>;
          p3 = p2\<lparr>p_x := clamp (p_x p2) 20 (of_int (WIDTH - 20)),
                  p_y := clamp (p_y p2) 20 (of_int (HEIGHT - 20))\<rparr>
      in g\<lparr>player := p3\<rparr>)"

definition input_switch :: "inputs \<Rightarrow> game \<Rightarrow> game" where
  "input_switch inp g =
     (let p = player g;
          p1 = (if K_q inp then switch_weapon (-1) p else p);
          p2 = (if K_e inp then switch_weapon 1 p1 else p1)
      in g\<lparr>player := p2\<rparr>)"

definition input_bomb :: "inputs \<Rightarrow> game \<Rightarrow> game" where
  "input_bomb inp g =
     (if (K_x inp \<or> K_k inp) \<and> bombs (player g) > 0 \<and> clock1 inp - last_bomb g > 0.5
      then bomb_explode (g\<lparr>player := (player g)\<lparr>bombs := bombs (player g) - 1\<rparr>,
                           last_bomb := clock2 inp\<rparr>)
      else g)"

definition fire :: "weapon \<Rightarrow> game \<Rightarrow> game" where
  "fire w g =
     (let p = player g;
          up = dict_get (upgrades p) ''damage''
      in case w of
           Single \<Rightarrow>
             (let rate = 0.16 * (if rapid p > 0 then 0.6 else 1.0) in
              if bullets_cool p \<le> 0
              then g\<lparr>player := p\<lparr>bullets_cool := rate\<rparr>,
                     bullets := bullets g @
                       [\<lparr>b_x = p_x p, b_y = p_y p - 18,
                         b_vx = 0 * of_int BULLET_SPEED, b_vy = -1 * of_int BULLET_SPEED,
                         b_owner = OwnPlayer, b_dmg = 12 + up * 2, b_r = 4\<rparr>]\<rparr>
              else g)
         | Spread \<Rightarrow>
             (let rate = 0.26 * (if rapid p > 0 then 0.6 else 1.0) in
              if bullets_cool p \<le> 0
              then g\<lparr>player := p\<lparr>bullets_cool := rate\<rparr>,
                     bullets := bullets g @
                       map (\<lambda>a. let rad = radians (of_int (a - 90))
                                in \<lparr>b_x = p_x p, b_y = p_y p - 18,
                                    b_vx = cos rad * of_int BULLET_SPEED,
                                    b_vy = sin rad * of_int BULLET_SPEED,
                                    b_owner = OwnPlayer, b_dmg = 10 + up, b_r = 4\<rparr>)
                           [-18, 0, 18 :: int]\<rparr>
              else g)
         | Laser \<Rightarrow>
             (let rate = 0.38 * (if rapid p > 0 then 0.6 else 1.0) in
              if bullets_cool p \<le> 0
              then g\<lparr>player := p\<lparr>bullets_cool := rate\<rparr>,
                     lasers := lasers g @
                       [\<lparr>l_x = p_x p, l_y = p_y p - 10, l_dx = 0, l_dy = -1,
                         l_life = LASER_DURATION, l_t = 0, l_dmg = 6 + up\<rparr>]\<rparr>
              else g))"

definition input_fire :: "inputs \<Rightarrow> game \<Rightarrow> error + game" where
  "input_fire inp g =
     (let shoot = (K_z inp \<or> K_j inp \<or>
                   (case joystick inp of Some (ax0, ax1, b0) \<Rightarrow> b0 | None \<Rightarrow> False))
      in if shoot
         then (case py_index weapons (weapon_index (player g)) of
                 Inl err \<Rightarrow> Inl err
               | Inr w \<Rightarrow> Inr (fire w g))
         else Inr g)"

definition input_play :: "real \<Rightarrow> inputs \<Rightarrow> game \<Rightarrow> error + game" where
  "input_play dt inp g = input_fire inp (input_bomb inp (input_switch inp (input_move dt inp g)))"

subsection \<open>Physics of one tick\<close>

text \<open>
  \<^verbatim>\<open>Game.update_physics\<close> is the sequence of its passes: timers and projectile motion,
  the enemy pass, bullet collisions, laser damage and body contact. Each loop over
  \<^verbatim>\<open>list(self.enemies)\<close> or \<^verbatim>\<open>list(self.bullets)\<close> visits a snapshot and removes
  objects from the live list by identity; as in \<open>bomb_loop\<close>, \<open>kept\<close> holds the visited
  objects that stay.
\<close>

definition phys_timers :: "real \<Rightarrow> game \<Rightarrow> game" where
  "phys_timers dt g =
     g\<lparr>player := Player_update dt (player g),
       bullets := filter bullet_alive (map (bullet_update dt) (bullets g)),
       lasers := map (laser_update dt) (filter laser_alive (lasers g))\<rparr>"

text \<open>\<^verbatim>\<open>Game.drop_powerup\<close>, with the draw of \<^verbatim>\<open>random.choice(kinds)\<close>.\<close>

definition drop_powerup :: "real \<Rightarrow> real \<Rightarrow> game \<Rightarrow> game" where
  "drop_powerup x y g =
     (let (u, t) = draw (rng g);
          k = [Heal, Rapid, ShieldUp, BombUp, Coin] ! nat (randbelow 5 u)
      in g\<lparr>powerups := powerups g @ [\<lparr>u_x = x, u_y = y, u_type = k, u_t = 0\<rparr>], rng := t\<rparr>)"

text \<open>The body of \<^verbatim>\<open>if e.hp <= 0:\<close> in the enemy pass, after the removal of \<open>e\<close>.\<close>

definition enemy_reward :: "enemy \<Rightarrow> game \<Rightarrow> game" where
  "enemy_reward e g =
     (let p = player g;
          p1 = p\<lparr>score := score p + (10 + level e * 3)\<rparr>;
          p2 = p1\<lparr>coins := coins p1 + (1 + level e div 2)\<rparr>;
          (u, t) = draw (rng g);
          g1 = g\<lparr>player := p2, rng := t\<rparr>
      in if u < 0.18 then drop_powerup (e_x e) (e_y e) g1 else g1)"

fun enemies_loop :: "real \<Rightarrow> enemy list \<Rightarrow> enemy list \<Rightarrow> game \<Rightarrow> game" where
  "enemies_loop dt kept [] g = g\<lparr>enemies := kept\<rparr>"
| "enemies_loop dt kept (e0 # es) g =
     (let (e, shots) = enemy_update dt (player g) e0;
          g1 = g\<lparr>bullets := bullets g @ shots\<rparr>
      in if e_hp e \<le> 0
         then enemies_loop dt kept es (enemy_reward e g1)
         else enemies_loop dt (kept @ [e]) es g1)"

definition phys_enemies :: "real \<Rightarrow> game \<Rightarrow> game" where
  "phys_enemies dt g = enemies_loop dt [] (enemies g) g"

text \<open>
  A player bullet against the enemies: the inner loop stops at the first enemy it overlaps,
  which absorbs the damage. \<open>None\<close> means that no enemy was hit.
\<close>

fun bullet_hit_enemy :: "bullet \<Rightarrow> enemy list \<Rightarrow> enemy list option" where
  "bullet_hit_enemy b [] = None"
| "bullet_hit_enemy b (e # es) =
     (if (e_x e - b_x b)\<^sup>2 + (e_y e - b_y b)\<^sup>2 \<le> (of_int (e_r e + b_r b))\<^sup>2
      then Some (e\<lparr>e_hp := e_hp e - of_int (b_dmg b)\<rparr> # es)
      else map_option (Cons e) (bullet_hit_enemy b es))"

fun bullets_loop :: "bullet list \<Rightarrow> bullet list \<Rightarrow> game \<Rightarrow> game" where
  "bullets_loop kept [] g = g\<lparr>bullets := kept\<rparr>"
| "bullets_loop kept (b # bs) g =
     (if b_owner b = OwnPlayer
      then (case bullet_hit_enemy b (enemies g) of
              Some es' \<Rightarrow> bullets_loop kept bs (g\<lparr>enemies := es'\<rparr>)
            | None \<Rightarrow> bullets_loop (kept @ [b]) bs g)
      else (let p = player g in
            if (p_x p - b_x b)\<^sup>2 + (p_y p - b_y b)\<^sup>2 \<le> (of_int (p_r p + b_r b))\<^sup>2
            then bullets_loop kept bs
                   (if shield p \<le> 0 then g\<lparr>player := p\<lparr>hp := hp p - b_dmg b\<rparr>\<rparr> else g)
            else bullets_loop (kept @ [b]) bs g))"

definition phys_bullets :: "game \<Rightarrow> game" where
  "phys_bullets g = bullets_loop [] (bullets g) g"

text \<open>
  Laser damage: \<open>laser_dist\<close> is the quantity \<^verbatim>\<open>dist = num/den\<close> that the code computes
  for a beam and an enemy, from the origin of the beam and the point 2000 units along it.
\<close>

definition laser_dist :: "laser \<Rightarrow> enemy \<Rightarrow> real" where
  "laser_dist l e =
     (let ptx = e_x e; pty = e_y e;
          x1 = l_x l; y1 = l_y l;
          x2 = l_x l + l_dx l * 2000; y2 = l_y l + l_dy l * 2000;
          num = \<bar>(y2 - y1) * ptx - (x2 - x1) * pty + x2 * y1 - y2 * x1\<bar>;
          den = hypot (y2 - y1) (x2 - x1) + 0.000001
      in num / den)"

definition laser_damage :: "real \<Rightarrow> laser \<Rightarrow> enemy \<Rightarrow> enemy" where
  "laser_damage dt l e =
     (if laser_dist l e \<le> of_int (e_r e + 4)
      then e\<lparr>e_hp := e_hp e - of_int (l_dmg l) * dt * 8\<rparr>
      else e)"

definition phys_lasers :: "real \<Rightarrow> game \<Rightarrow> game" where
  "phys_lasers dt g =
     g\<lparr>enemies := foldl (\<lambda>es l. map (laser_damage dt l) es) (enemies g) (lasers g)\<rparr>"

fun contact_loop :: "enemy list \<Rightarrow> enemy list \<Rightarrow> game \<Rightarrow> game" where
  "contact_loop kept [] g = g\<lparr>enemies := kept\<rparr>"
| "contact_loop kept (e # es) g =
     (let p = player g in
      if (e_x e - p_x p)\<^sup>2 + (e_y e - p_y p)\<^sup>2 \<le> (of_int (e_r e + p_r p))\<^sup>2
      then contact_loop kept es
             (if shield p \<le> 0 then g\<lparr>player := p\<lparr>hp := hp p - 18\<rparr>\<rparr> else g)
      else contact_loop (kept @ [e]) es g)"

definition phys_contact :: "game \<Rightarrow> game" where
  "phys_contact g = contact_loop [] (enemies g) g"

definition update_physics :: "real \<Rightarrow> game \<Rightarrow> game" where
  "update_physics dt g =
     phys_contact (phys_lasers dt (phys_bullets (phys_enemies dt (phys_timers dt g))))"

subsection \<open>Power-ups\<close>

text \<open>The effect of a pickup on the player: the \<^verbatim>\<open>if/elif\<close> chain on \<^verbatim>\<open>p['type']\<close>.\<close>

definition pickup :: "ptype \<Rightarrow> player \<Rightarrow> player" where
  "pickup k p =
     (case k of
        Heal \<Rightarrow> p\<lparr>hp := clamp (hp p + 40) 0 (maxhp p)\<rparr>
      | Rapid \<Rightarrow> p\<lparr>rapid := 6.0\<rparr>
      | ShieldUp \<Rightarrow> p\<lparr>shield := 6.0\<rparr>
      | BombUp \<Rightarrow> p\<lparr>bombs := clamp (bombs p + 1) 0 6\<rparr>
      | Coin \<Rightarrow> p\<lparr>coins := coins p + 5\<rparr>)"

text \<open>
  \<^verbatim>\<open>Game.update_powerups\<close>. A power-up dictionary is advanced in place, then picked up,
  discarded below the screen, or kept.
\<close>

fun powerups_loop :: "real \<Rightarrow> powerup list \<Rightarrow> powerup list \<Rightarrow> game \<Rightarrow> game" where
  "powerups_loop dt kept [] g = g\<lparr>powerups := kept\<rparr>"
| "powerups_loop dt kept (q0 # qs) g =
     (let q = q0\<lparr>u_y := u_y q0 + 40 * dt, u_t := u_t q0 + dt\<rparr>;
          p = player g
      in if (u_x q - p_x p)\<^sup>2 + (u_y q - p_y p)\<^sup>2 \<le> (of_int (p_r p + 12))\<^sup>2
         then powerups_loop dt kept qs (g\<lparr>player := pickup (u_type q) p\<rparr>)
         else if u_y q > of_int (HEIGHT + 40)
         then powerups_loop dt kept qs g
         else powerups_loop dt (kept @ [q]) qs g)"

definition update_powerups :: "real \<Rightarrow> game \<Rightarrow> game" where
  "update_powerups dt g = powerups_loop dt [] (powerups g) g"

subsection \<open>The wave scheduler\<close>

text \<open>\<^verbatim>\<open>Game.update_wave_and_spawning\<close>.\<close>

definition update_wave_and_spawning :: "real \<Rightarrow> inputs \<Rightarrow> game \<Rightarrow> game" where
  "update_wave_and_spawning dt inp g =
     (case wave_state g of
        Interlude \<Rightarrow>
          (let g1 = g\<lparr>interlude_time := interlude_time g - dt\<rparr>
           in if interlude_time g1 \<le> 0
              then spawn_wave (g1\<lparr>wave_state := Active\<rparr>)
              else g1)
      | Active \<Rightarrow>
          (let g1 = (if enemies g = []
                     then g\<lparr>wave_state := Interlude, interlude_time := 6.0,
                            last_interlude := clock3 inp\<rparr>
                     else g);
               g2 = g1\<lparr>spawn_timer := spawn_timer g1 - dt\<rparr>
           in if spawn_timer g2 \<le> 0
              then (let g3 = g2\<lparr>spawn_timer := max 0.3 (1.2 / (1 + of_int (wave g2) * 0.08))\<rparr>;
                        (u, t) = draw (rng g3);
                        g4 = g3\<lparr>rng := t\<rparr>
                    in if u < 0.6
                       then spawn_enemy_edge None (1 + wave g4 div 2) g4
                       else g4)
              else g2))"

subsection \<open>One tick of the play state\<close>

text \<open>
  The \<^verbatim>\<open>elif self.state == 'play':\<close> branch of \<^verbatim>\<open>Game.run\<close>: input, physics,
  power-ups, the wave scheduler and the check for the player's death. An exception of
  \<^verbatim>\<open>input_play\<close> leaves the loop.
\<close>

definition check_death :: "game \<Rightarrow> game" where
  "check_death g =
     (if hp (player g) \<le> 0
      then (let g1 = (if score (player g) > hiscore g
                      then g\<lparr>hiscore := score (player g)\<rparr> else g)
            in g1\<lparr>state := Gameover\<rparr>)
      else g)"

definition play_tick :: "real \<Rightarrow> inputs \<Rightarrow> game \<Rightarrow> error + game" where
  "play_tick dt inp g =
     (case input_play dt inp g of
        Inl err \<Rightarrow> Inl err
      | Inr g1 \<Rightarrow>
          Inr (check_death
                 (update_wave_and_spawning dt inp
                    (update_powerups dt (update_physics dt g1)))))"

subsection \<open>The shop\<close>

text \<open>
  The options of \<^verbatim>\<open>Game.shop_loop\<close> as (label, key, cost), and the body of the
  \<^verbatim>\<open>K_RETURN\<close> branch for the selected option.
\<close>

definition opts :: "(string \<times> string \<times> int) list" where
  "opts = [(''Max HP +20'', ''hp'', 8),
           (''Speed +10'', ''speed'', 10),
           (''Damage +1'', ''damage'', 12),
           (''Extra Bomb'', ''bomb'', 6),
           (''Restore HP'', ''heal'', 5)]"

definition shop_buy :: "string \<times> string \<times> int \<Rightarrow> game \<Rightarrow> game" where
  "shop_buy opt g =
     (case opt of (label, key, cost) \<Rightarrow>
        if coins (player g) \<ge> cost
        then (let p = (player g)\<lparr>coins := coins (player g) - cost\<rparr> in
              if key \<in> set [''hp'', ''speed'', ''damage'']
              then (let pu = (persist_upgrades g)(key \<mapsto> dict_get (persist_upgrades g) key + 1);
                        p1 = p\<lparr>upgrades := (upgrades p)(key \<mapsto> dict_get (upgrades p) key + 1)\<rparr>;
                        p2 = (if key = ''hp''
                              then (let p' = p1\<lparr>maxhp := maxhp p1 + 20\<rparr> in p'\<lparr>hp := maxhp p'\<rparr>)
                              else p1)
                    in g\<lparr>persist_upgrades := pu, player := p2\<rparr>)
              else if key = ''bomb''
              then g\<lparr>player := p\<lparr>bombs := bombs p + 1\<rparr>\<rparr>
              else if key = ''heal''
              then g\<lparr>player := p\<lparr>hp := min (maxhp p) (hp p + 40)\<rparr>\<rparr>
              else g\<lparr>player := p\<rparr>)
        else g)"

text \<open>
  The \<^verbatim>\<open>KEYDOWN\<close> events that the shop handles, and the handler for one event on the
  selection index \<open>sel\<close> and the game.
\<close>

datatype shop_key = ShopUp | ShopDown | ShopReturn | ShopEscape

definition shop_keydown :: "shop_key \<Rightarrow> int \<times> game \<Rightarrow> error + (int \<times> game)" where
  "shop_keydown k sg =
     (case sg of (sel, g) \<Rightarrow>
        (case k of
           ShopUp \<Rightarrow> Inr ((sel - 1) mod int (length opts), g)
         | ShopDown \<Rightarrow> Inr ((sel + 1) mod int (length opts), g)
         | ShopReturn \<Rightarrow>
             (case py_index opts sel of
                Inl err \<Rightarrow> Inl err
              | Inr opt \<Rightarrow> Inr (sel, shop_buy opt g))
         | ShopEscape \<Rightarrow> Inr (sel, g\<lparr>state := Play\<rparr>)))"

subsection \<open>Start-up and sample games\<close>

text \<open>
  \<^verbatim>\<open>Game.__init__\<close> together with the \<^verbatim>\<open>self.powerups = []\<close> of \<^verbatim>\<open>Game.run\<close>: the
  saved hi-score and upgrades and the random tape are given, \<^verbatim>\<open>last_bomb\<close> reads as 0
  until it is first set, and \<^verbatim>\<open>reset_run\<close> fills in the rest.
\<close>

definition Game_init :: "int \<Rightarrow> (string \<rightharpoonup> int) \<Rightarrow> tape \<Rightarrow> game" where
  "Game_init hi ups tp =
     reset_run
       \<lparr>running = True, state = Menu, hiscore = hi, persist_upgrades = ups,
        player = Player 0 0, enemies = [], bullets = [], lasers = [], powerups = [],
        wave = 0, wave_time = 0, spawn_timer = 0, wave_state = Interlude,
        interlude_time = 0, difficulty = 0, last_bomb = 0, last_interlude = 0, rng = tp\<rparr>"

text \<open>An input snapshot with no key held, and a freshly started game without a save file.\<close>

definition no_keys :: inputs where
  "no_keys =
     \<lparr>K_a = False, K_LEFT = False, K_d = False, K_RIGHT = False, K_w = False, K_UP = False,
      K_s = False, K_DOWN = False, K_SPACE = False, K_LSHIFT = False, K_z = False,
      K_j = False, K_q = False, K_e = False, K_x = False, K_k = False,
      joystick = None, clock1 = 1000, clock2 = 1000, clock3 = 1000\<rparr>"

definition demo_game :: game where
  "demo_game = start_game (Game_init 0 Map.empty [])"

subsection \<open>Notions used in the statements\<close>

text \<open>The overlap test of the body-contact pass, for one enemy.\<close>

definition touching :: "player \<Rightarrow> enemy \<Rightarrow> bool" where
  "touching p e \<longleftrightarrow>
     (e_x e - p_x p)\<^sup>2 + (e_y e - p_y p)\<^sup>2 \<le> (of_int (e_r e + p_r p))\<^sup>2"

text \<open>
  An enemy within 180 units of the player, as a distance; and the guard of the bomb in
  \<^verbatim>\<open>input_play\<close>.
\<close>

definition in_blast :: "player \<Rightarrow> enemy \<Rightarrow> bool" where
  "in_blast p e \<longleftrightarrow> hypot (e_x e - p_x p) (e_y e - p_y p) \<le> 180"

definition bomb_used :: "inputs \<Rightarrow> game \<Rightarrow> bool" where
  "bomb_used inp g \<longleftrightarrow>
     (K_x inp \<or> K_k inp) \<and> bombs (player g) > 0 \<and> clock1 inp - last_bomb g > 0.5"

text \<open>A started game with one enemy 55 units above the player and one in the far corner.\<close>

definition bomb_demo :: game where
  "bomb_demo = demo_game\<lparr>enemies := [Enemy 500 400 Chaser 1 0, Enemy 0 0 Chaser 1 0]\<rparr>"

text \<open>
  A power-up after the fall of one tick, and the pickup test of \<^verbatim>\<open>update_powerups\<close>
  for the power-up at its new position.
\<close>

definition fallen :: "real \<Rightarrow> powerup \<Rightarrow> powerup" where
  "fallen dt q = q\<lparr>u_y := u_y q + 40 * dt, u_t := u_t q + dt\<rparr>"

definition reached :: "player \<Rightarrow> powerup \<Rightarrow> bool" where
  "reached p q \<longleftrightarrow>
     (u_x q - p_x p)\<^sup>2 + (u_y q - p_y p)\<^sup>2 \<le> (of_int (p_r p + 12))\<^sup>2"

text \<open>
  A started game in which the player, holding 30 coins, has bought the shop's extra bomb
  five times, with a bomb power-up lying on the player.
\<close>

definition stocked_game :: game where
  "stocked_game =
     ((shop_buy (''Extra Bomb'', ''bomb'', 6) ^^ 5)
        (demo_game\<lparr>player := (player demo_game)\<lparr>coins := 30\<rparr>\<rparr>))
     \<lparr>powerups := [\<lparr>u_x = 500, u_y = 455, u_type = BombUp, u_t = 0\<rparr>]\<rparr>"

text \<open>
  An enemy on one of the four spawn borders: 40 units outside the screen, with the other
  coordinate between 50 and the screen size minus 50.
\<close>

definition on_edge :: "enemy \<Rightarrow> bool" where
  "on_edge e \<longleftrightarrow>
     (e_y e = -40 \<and> 50 \<le> e_x e \<and> e_x e \<le> of_int WIDTH - 50) \<or>
     (e_y e = of_int HEIGHT + 40 \<and> 50 \<le> e_x e \<and> e_x e \<le> of_int WIDTH - 50) \<or>
     (e_x e = -40 \<and> 50 \<le> e_y e \<and> e_y e \<le> of_int HEIGHT - 50) \<or>
     (e_x e = of_int WIDTH + 40 \<and> 50 \<le> e_y e \<and> e_y e \<le> of_int HEIGHT - 50)"

text \<open>The enemies that a step appended to the enemy list of \<open>g\<close>.\<close>

definition new_enemies :: "game \<Rightarrow> game \<Rightarrow> enemy list" where
  "new_enemies g g' = drop (length (enemies g)) (enemies g')"

text \<open>
  The hit test of the laser pass for one beam and one enemy, and two distances for
  comparison with it: from the centre of the enemy to the infinite line through the origin
  of the beam along its direction, and to the ray that starts at the origin and runs along
  the direction only (the nearest point of the ray is the origin when the enemy lies behind
  it).
\<close>

definition beam_hits :: "laser \<Rightarrow> enemy \<Rightarrow> bool" where
  "beam_hits l e \<longleftrightarrow> laser_dist l e \<le> of_int (e_r e + 4)"

definition line_dist :: "laser \<Rightarrow> enemy \<Rightarrow> real" where
  "line_dist l e =
     \<bar>l_dy l * (e_x e - l_x l) - l_dx l * (e_y e - l_y l)\<bar> / hypot (l_dx l) (l_dy l)"

definition ray_dist :: "laser \<Rightarrow> enemy \<Rightarrow> real" where
  "ray_dist l e =
     (if l_dx l * (e_x e - l_x l) + l_dy l * (e_y e - l_y l) \<le> 0
      then hypot (e_x e - l_x l) (e_y e - l_y l)
      else line_dist l e)"

text \<open>
  A started game with the beam that the player fires from the start position, and one
  enemy 155 units straight below the origin of the beam, behind the player.
\<close>

definition demo_beam :: laser where
  "demo_beam = \<lparr>l_x = 500, l_y = 445, l_dx = 0, l_dy = -1,
                 l_life = LASER_DURATION, l_t = 0, l_dmg = 6\<rparr>"

definition laser_demo :: game where
  "laser_demo = demo_game\<lparr>lasers := [demo_beam], enemies := [Enemy 500 600 Chaser 1 0]\<rparr>"

text \<open>An enemy after its own \<^verbatim>\<open>update\<close> step in the enemy pass.\<close>

definition moved :: "real \<Rightarrow> player \<Rightarrow> enemy \<Rightarrow> enemy" where
  "moved dt p e = fst (enemy_update dt p e)"



text \<open>
  The condition on a game under which a tick cannot raise the hp above its maximum: the hp
  is at most the maximum, the maximum is not negative, and no bullet owned by an enemy has
  negative damage (enemy bullets are created with damage 8 or 10).
\<close>

definition tick_inv :: "game \<Rightarrow> bool" where
  "tick_inv g \<longleftrightarrow>
     hp (player g) \<le> maxhp (player g) \<and> 0 \<le> maxhp (player g) \<and>
     list_all (\<lambda>b. b_owner b = OwnEnemy \<longrightarrow> 0 \<le> b_dmg b) (bullets g)"

text \<open>
  A started game in which the player has 10 hp left and a chaser sits on the player's
  position.
\<close>

definition death_demo :: game where
  "death_demo =
     demo_game\<lparr>player := (player demo_game)\<lparr>hp := 10, score := 40\<rparr>,
               enemies := [Enemy 500 455 Chaser 1 0]\<rparr>"

text \<open>The part of the game that the wave scheduler owns: phase, countdown and wave counter.\<close>

definition sched :: "game \<Rightarrow> phase \<times> real \<times> int" where
  "sched g = (wave_state g, interlude_time g, wave g)"

section \<open>Verified properties\<close>

subsection \<open>The wave scheduler\<close>

lemma spawn_enemy_edge_sched:
  "wave_state (spawn_enemy_edge k lvl g) = wave_state g \<and>
   interlude_time (spawn_enemy_edge k lvl g) = interlude_time g \<and>
   wave (spawn_enemy_edge k lvl g) = wave g"
  by (simp add: spawn_enemy_edge_def Let_def case_prod_beta split: option.split)

lemma spawn_n_sched:
  "wave_state (spawn_n n lvl g) = wave_state g \<and>
   interlude_time (spawn_n n lvl g) = interlude_time g \<and>
   wave (spawn_n n lvl g) = wave g"
  by (induction n lvl g rule: spawn_n.induct) (simp_all add: spawn_enemy_edge_sched)

lemma spawn_wave_sched:
  "wave_state (spawn_wave g) = wave_state g \<and>
   interlude_time (spawn_wave g) = interlude_time g \<and>
   wave (spawn_wave g) = wave g + 1"
  by (simp add: spawn_wave_def Let_def case_prod_beta spawn_n_sched)

lemma demo_game_sched:
  "wave_state demo_game = Interlude \<and> interlude_time demo_game = 4 \<and>
   wave demo_game = 0 \<and> enemies demo_game = []"
  by (simp add: demo_game_def start_game_def Game_init_def reset_run_def Let_def)

text \<open>
  Claim C6. A run starts in the interlude with the countdown at 4 and the wave counter at 0.
  In the interlude the scheduler subtracts the elapsed time; while the countdown stays
  positive nothing else happens, and when it reaches 0 or less the phase becomes active and
  the wave counter goes up by one. In the active phase the scheduler returns to the
  interlude exactly when the enemy list is empty, and it then sets the countdown to 6; this
  is the only way back to the interlude, so every wave after the first is preceded by a
  countdown of 6.
\<close>

theorem interlude_timers:
  "wave_state (reset_run g0) = Interlude \<and> interlude_time (reset_run g0) = 4 \<and>
   wave (reset_run g0) = 0 \<and>
   (wave_state g = Interlude \<and> 0 < interlude_time g - dt \<longrightarrow>
      wave_state (update_wave_and_spawning dt inp g) = Interlude \<and>
      interlude_time (update_wave_and_spawning dt inp g) = interlude_time g - dt \<and>
      wave (update_wave_and_spawning dt inp g) = wave g) \<and>
   (wave_state g = Interlude \<and> interlude_time g - dt \<le> 0 \<longrightarrow>
      wave_state (update_wave_and_spawning dt inp g) = Active \<and>
      wave (update_wave_and_spawning dt inp g) = wave g + 1) \<and>
   (wave_state g = Active \<and> enemies g = [] \<longrightarrow>
      wave_state (update_wave_and_spawning dt inp g) = Interlude \<and>
      interlude_time (update_wave_and_spawning dt inp g) = 6 \<and>
      wave (update_wave_and_spawning dt inp g) = wave g) \<and>
   (wave_state g = Active \<and> enemies g \<noteq> [] \<longrightarrow>
      wave_state (update_wave_and_spawning dt inp g) = Active \<and>
      wave (update_wave_and_spawning dt inp g) = wave g)"
proof -
  have r: "wave_state (reset_run g0) = Interlude \<and> interlude_time (reset_run g0) = 4 \<and>
           wave (reset_run g0) = 0"
    by (simp add: reset_run_def Let_def)
  have i1: "wave_state g = Interlude \<and> 0 < interlude_time g - dt \<longrightarrow>
      wave_state (update_wave_and_spawning dt inp g) = Interlude \<and>
      interlude_time (update_wave_and_spawning dt inp g) = interlude_time g - dt \<and>
      wave (update_wave_and_spawning dt inp g) = wave g"
    by (simp add: update_wave_and_spawning_def Let_def)
  have i2: "wave_state g = Interlude \<and> interlude_time g - dt \<le> 0 \<longrightarrow>
      wave_state (update_wave_and_spawning dt inp g) = Active \<and>
      wave (update_wave_and_spawning dt inp g) = wave g + 1"
    by (simp add: update_wave_and_spawning_def Let_def spawn_wave_sched)
  have a1: "wave_state g = Active \<and> enemies g = [] \<longrightarrow>
      wave_state (update_wave_and_spawning dt inp g) = Interlude \<and>
      interlude_time (update_wave_and_spawning dt inp g) = 6 \<and>
      wave (update_wave_and_spawning dt inp g) = wave g"
    by (simp add: update_wave_and_spawning_def Let_def case_prod_beta spawn_enemy_edge_sched)
  have a2: "wave_state g = Active \<and> enemies g \<noteq> [] \<longrightarrow>
      wave_state (update_wave_and_spawning dt inp g) = Active \<and>
      wave (update_wave_and_spawning dt inp g) = wave g"
    by (simp add: update_wave_and_spawning_def Let_def case_prod_beta spawn_enemy_edge_sched)
  from r i1 i2 a1 a2 show ?thesis by blast
qed

theorem interlude_timers_witness:
  "interlude_time (reset_run demo_game) = 4 \<and>
   interlude_time (update_wave_and_spawning 1 no_keys demo_game) = 3 \<and>
   wave_state (update_wave_and_spawning 1 no_keys demo_game) = Interlude \<and>
   wave_state (update_wave_and_spawning 4 no_keys demo_game) = Active \<and>
   wave (update_wave_and_spawning 4 no_keys demo_game) = 1 \<and>
   wave_state (update_wave_and_spawning 1 no_keys (demo_game\<lparr>wave := 5, wave_state := Active\<rparr>))
     = Interlude \<and>
   interlude_time (update_wave_and_spawning 1 no_keys (demo_game\<lparr>wave := 5, wave_state := Active\<rparr>))
     = 6 \<and>
   wave_state (update_wave_and_spawning 1 no_keys
      (demo_game\<lparr>enemies := [Enemy 0 0 Chaser 1 0], wave_state := Active\<rparr>)) = Active"
  using interlude_timers [of demo_game demo_game 1 no_keys]
        interlude_timers [of demo_game demo_game 4 no_keys]
        interlude_timers [of demo_game "demo_game\<lparr>wave := 5, wave_state := Active\<rparr>" 1 no_keys]
        interlude_timers [of demo_game
           "demo_game\<lparr>enemies := [Enemy 0 0 Chaser 1 0], wave_state := Active\<rparr>" 1 no_keys]
        demo_game_sched
  by simp

subsection \<open>Input handling\<close>

lemma clamp_bounds: "lo \<le> hi \<Longrightarrow> lo \<le> clamp v lo hi \<and> clamp v lo hi \<le> hi"
  by (simp add: clamp_def)

lemma input_move_bounds:
  "20 \<le> p_x (player (input_move dt inp g)) \<and>
   p_x (player (input_move dt inp g)) \<le> of_int WIDTH - 20 \<and>
   20 \<le> p_y (player (input_move dt inp g)) \<and>
   p_y (player (input_move dt inp g)) \<le> of_int HEIGHT - 20"
  by (simp add: input_move_def Let_def case_prod_beta clamp_bounds WIDTH_def HEIGHT_def)

lemma input_move_weapon:
  "weapon_index (player (input_move dt inp g)) = weapon_index (player g)"
  by (simp add: input_move_def Let_def case_prod_beta)

lemma input_switch_pos:
  "p_x (player (input_switch inp g)) = p_x (player g) \<and>
   p_y (player (input_switch inp g)) = p_y (player g)"
  by (simp add: input_switch_def switch_weapon_def Let_def)

lemma mod3_range: "- 3 \<le> (x::int) mod 3 \<and> x mod 3 < 3"
  by presburger

lemma input_switch_weapon:
  "- 3 \<le> weapon_index (player g) \<Longrightarrow> weapon_index (player g) < 3 \<Longrightarrow>
   - 3 \<le> weapon_index (player (input_switch inp g)) \<and>
   weapon_index (player (input_switch inp g)) < 3"
  by (simp add: input_switch_def switch_weapon_def weapons_def Let_def mod3_range)

lemma bomb_loop_player:
  "p_x (player (fst (bomb_loop kept es k g))) = p_x (player g) \<and>
   p_y (player (fst (bomb_loop kept es k g))) = p_y (player g) \<and>
   weapon_index (player (fst (bomb_loop kept es k g))) = weapon_index (player g)"
  by (induction kept es k g rule: bomb_loop.induct) (simp_all add: Let_def)

lemma bomb_explode_player:
  "p_x (player (bomb_explode g)) = p_x (player g) \<and>
   p_y (player (bomb_explode g)) = p_y (player g) \<and>
   weapon_index (player (bomb_explode g)) = weapon_index (player g)"
  using bomb_loop_player [of "[]" "enemies g" 0 g]
  by (simp add: bomb_explode_def Let_def case_prod_beta)

lemma input_bomb_player:
  "p_x (player (input_bomb inp g)) = p_x (player g) \<and>
   p_y (player (input_bomb inp g)) = p_y (player g) \<and>
   weapon_index (player (input_bomb inp g)) = weapon_index (player g)"
  by (simp add: input_bomb_def bomb_explode_player)

lemma fire_pos:
  "p_x (player (fire w g)) = p_x (player g) \<and> p_y (player (fire w g)) = p_y (player g)"
  by (cases w) (simp_all add: fire_def Let_def)

lemma input_fire_pos:
  "input_fire inp g = Inr g' \<Longrightarrow>
   p_x (player g') = p_x (player g) \<and> p_y (player g') = p_y (player g)"
  by (auto simp: input_fire_def Let_def fire_pos split: if_splits sum.splits)

lemma py_index_weapons:
  "- 3 \<le> i \<Longrightarrow> i < 3 \<Longrightarrow> \<exists>w. py_index weapons i = Inr w"
  by (simp add: py_index_def weapons_def Let_def)

lemma input_fire_returns:
  "- 3 \<le> weapon_index (player g) \<Longrightarrow> weapon_index (player g) < 3 \<Longrightarrow>
   \<exists>g'. input_fire inp g = Inr g'"
  using py_index_weapons [of "weapon_index (player g)"]
  by (auto simp: input_fire_def Let_def)

text \<open>
  Claim C9. The input step of the play state returns whenever the weapon index is a valid
  index of the three weapons (it always is: it starts at 0 and is only ever reduced modulo
  3), and whenever it returns, the player's position lies in
  \<open>[20, WIDTH - 20] \<times> [20, HEIGHT - 20]\<close>: the clamp comes after the dash and the
  movement, and nothing later in the step moves the player.
\<close>

theorem input_play_position_in_bounds:
  "(- 3 \<le> weapon_index (player g) \<and> weapon_index (player g) < 3 \<longrightarrow>
      (\<exists>g'. input_play dt inp g = Inr g')) \<and>
   (\<forall>g'. input_play dt inp g = Inr g' \<longrightarrow>
      20 \<le> p_x (player g') \<and> p_x (player g') \<le> of_int WIDTH - 20 \<and>
      20 \<le> p_y (player g') \<and> p_y (player g') \<le> of_int HEIGHT - 20)"
proof (intro conjI impI allI)
  assume "- 3 \<le> weapon_index (player g) \<and> weapon_index (player g) < 3"
  then have "- 3 \<le> weapon_index (player (input_move dt inp g)) \<and>
             weapon_index (player (input_move dt inp g)) < 3"
    by (simp add: input_move_weapon)
  then have "- 3 \<le> weapon_index (player (input_switch inp (input_move dt inp g))) \<and>
             weapon_index (player (input_switch inp (input_move dt inp g))) < 3"
    using input_switch_weapon by blast
  then show "\<exists>g'. input_play dt inp g = Inr g'"
    unfolding input_play_def
    by (intro input_fire_returns) (simp_all add: input_bomb_player)
next
  fix g'
  assume "input_play dt inp g = Inr g'"
  then have "p_x (player g') = p_x (player (input_move dt inp g)) \<and>
             p_y (player g') = p_y (player (input_move dt inp g))"
    unfolding input_play_def
    using input_fire_pos [of inp "input_bomb inp (input_switch inp (input_move dt inp g))" g']
    by (simp add: input_bomb_player input_switch_pos)
  then show "20 \<le> p_x (player g')" "p_x (player g') \<le> of_int WIDTH - 20"
    "20 \<le> p_y (player g')" "p_y (player g') \<le> of_int HEIGHT - 20"
    using input_move_bounds [of dt inp g] by simp_all
qed

lemma demo_game_weapon: "weapon_index (player demo_game) = 0"
  by (simp add: demo_game_def start_game_def Game_init_def reset_run_def Player_def Let_def)

theorem input_play_position_in_bounds_witness:
  "\<not> isl (input_play (1/60) (no_keys\<lparr>K_a := True, K_SPACE := True, K_z := True\<rparr>) demo_game) \<and>
   20 \<le> p_x (player (projr
      (input_play (1/60) (no_keys\<lparr>K_a := True, K_SPACE := True, K_z := True\<rparr>) demo_game))) \<and>
   p_y (player (projr
      (input_play (1/60) (no_keys\<lparr>K_a := True, K_SPACE := True, K_z := True\<rparr>) demo_game)))
    \<le> of_int HEIGHT - 20"
  using input_play_position_in_bounds
          [of demo_game "1/60" "no_keys\<lparr>K_a := True, K_SPACE := True, K_z := True\<rparr>"]
        demo_game_weapon
  by auto

subsection \<open>Body contact\<close>

lemma contact_loop_frame1:
  "score (player (contact_loop kept es g)) = score (player g) \<and>
   coins (player (contact_loop kept es g)) = coins (player g)"
  by (induction kept es g rule: contact_loop.induct) (simp_all add: Let_def)

lemma contact_loop_frame2:
  "powerups (contact_loop kept es g) = powerups g \<and>
   rng (contact_loop kept es g) = rng g"
  by (induction kept es g rule: contact_loop.induct) (simp_all add: Let_def)

lemma contact_loop_pos:
  "p_x (player (contact_loop kept es g)) = p_x (player g) \<and>
   p_y (player (contact_loop kept es g)) = p_y (player g) \<and>
   p_r (player (contact_loop kept es g)) = p_r (player g)"
  by (induction kept es g rule: contact_loop.induct) (simp_all add: Let_def)

lemma contact_loop_enemies:
  "enemies (contact_loop kept es g) = kept @ filter (\<lambda>e. \<not> touching (player g) e) es"
proof (induction kept es g rule: contact_loop.induct)
  case (1 kept g)
  then show ?case by simp
next
  case (2 kept e es g)
  then show ?case by (simp add: Let_def touching_def)
qed

text \<open>
  Claim C10. The body-contact pass removes exactly the enemies that overlap the player and
  leaves the player's score and coins, the power-up list and the random tape (no drop is
  rolled) as they were.
\<close>

theorem contact_grants_nothing:
  "enemies (phys_contact g) = filter (\<lambda>e. \<not> touching (player g) e) (enemies g) \<and>
   score (player (phys_contact g)) = score (player g) \<and>
   coins (player (phys_contact g)) = coins (player g) \<and>
   powerups (phys_contact g) = powerups g \<and>
   rng (phys_contact g) = rng g"
  by (simp add: phys_contact_def contact_loop_frame1 contact_loop_frame2 contact_loop_enemies)

subsection \<open>The shop\<close>

lemma shop_buy_rejected:
  "coins (player g) < cost \<Longrightarrow> shop_buy (label, key, cost) g = g"
  by (simp add: shop_buy_def)

lemma shop_buy_coins:
  "cost \<le> coins (player g) \<Longrightarrow>
   coins (player (shop_buy (label, key, cost) g)) = coins (player g) - cost"
  by (simp add: shop_buy_def Let_def)

lemma shop_buy_upgrade:
  "cost \<le> coins (player g) \<Longrightarrow> key \<in> {''hp'', ''speed'', ''damage''} \<Longrightarrow>
   persist_upgrades (shop_buy (label, key, cost) g) =
     (persist_upgrades g)(key \<mapsto> dict_get (persist_upgrades g) key + 1) \<and>
   upgrades (player (shop_buy (label, key, cost) g)) =
     (upgrades (player g))(key \<mapsto> dict_get (upgrades (player g)) key + 1)"
  by (auto simp: shop_buy_def Let_def)

lemma shop_buy_not_upgrade:
  "cost \<le> coins (player g) \<Longrightarrow> key \<notin> {''hp'', ''speed'', ''damage''} \<Longrightarrow>
   persist_upgrades (shop_buy (label, key, cost) g) = persist_upgrades g \<and>
   upgrades (player (shop_buy (label, key, cost) g)) = upgrades (player g)"
  by (auto simp: shop_buy_def Let_def)

lemma shop_buy_hp:
  "cost \<le> coins (player g) \<Longrightarrow>
   maxhp (player (shop_buy (label, ''hp'', cost) g)) = maxhp (player g) + 20 \<and>
   hp (player (shop_buy (label, ''hp'', cost) g)) = maxhp (player g) + 20"
  by (simp add: shop_buy_def Let_def)

lemma shop_buy_bomb:
  "cost \<le> coins (player g) \<Longrightarrow>
   bombs (player (shop_buy (label, ''bomb'', cost) g)) = bombs (player g) + 1"
  by (simp add: shop_buy_def Let_def)

lemma shop_buy_heal:
  "cost \<le> coins (player g) \<Longrightarrow>
   hp (player (shop_buy (label, ''heal'', cost) g)) = min (maxhp (player g)) (hp (player g) + 40)"
  by (simp add: shop_buy_def Let_def)

lemma shop_return:
  "0 \<le> sel \<Longrightarrow> sel < 5 \<Longrightarrow>
   shop_keydown ShopReturn (sel, g) = Inr (sel, shop_buy (opts ! nat sel) g)"
  by (simp add: shop_keydown_def py_index_def opts_def Let_def)

text \<open>
  Claim C5. Pressing Return on option \<open>sel\<close> of the shop buys that option. A purchase with
  fewer coins than the cost returns the game unchanged. A purchase with enough coins
  deducts the cost and applies the option: for \<open>hp\<close>, \<open>speed\<close> and \<open>damage\<close> the level of
  that key goes up by one both in the persisted upgrades and in the player's upgrades (a
  missing key counts as 0), and \<open>hp\<close> also raises the maximum hp by 20 and refills the hp;
  \<open>bomb\<close> adds a bomb; \<open>heal\<close> restores 40 hp up to the maximum.
\<close>

theorem shop_purchase_atomic:
  "(0 \<le> sel \<and> sel < 5 \<longrightarrow>
      shop_keydown ShopReturn (sel, g) = Inr (sel, shop_buy (opts ! nat sel) g)) \<and>
   (coins (player g) < cost \<longrightarrow> shop_buy (label, key, cost) g = g) \<and>
   (cost \<le> coins (player g) \<longrightarrow>
      coins (player (shop_buy (label, key, cost) g)) = coins (player g) - cost \<and>
      (key \<in> {''hp'', ''speed'', ''damage''} \<longrightarrow>
         persist_upgrades (shop_buy (label, key, cost) g) =
           (persist_upgrades g)(key \<mapsto> dict_get (persist_upgrades g) key + 1) \<and>
         upgrades (player (shop_buy (label, key, cost) g)) =
           (upgrades (player g))(key \<mapsto> dict_get (upgrades (player g)) key + 1)) \<and>
      (key \<notin> {''hp'', ''speed'', ''damage''} \<longrightarrow>
         persist_upgrades (shop_buy (label, key, cost) g) = persist_upgrades g \<and>
         upgrades (player (shop_buy (label, key, cost) g)) = upgrades (player g)) \<and>
      (key = ''hp'' \<longrightarrow>
         maxhp (player (shop_buy (label, key, cost) g)) = maxhp (player g) + 20 \<and>
         hp (player (shop_buy (label, key, cost) g)) = maxhp (player g) + 20) \<and>
      (key = ''bomb'' \<longrightarrow>
         bombs (player (shop_buy (label, key, cost) g)) = bombs (player g) + 1) \<and>
      (key = ''heal'' \<longrightarrow>
         hp (player (shop_buy (label, key, cost) g)) =
           min (maxhp (player g)) (hp (player g) + 40)))"
proof (intro conjI impI)
  assume "0 \<le> sel \<and> sel < 5"
  then show "shop_keydown ShopReturn (sel, g) = Inr (sel, shop_buy (opts ! nat sel) g)"
    by (simp add: shop_return)
next
  assume "coins (player g) < cost"
  then show "shop_buy (label, key, cost) g = g" by (rule shop_buy_rejected)
next
  assume c: "cost \<le> coins (player g)"
  show "coins (player (shop_buy (label, key, cost) g)) = coins (player g) - cost"
    using c by (rule shop_buy_coins)
  { assume k: "key \<in> {''hp'', ''speed'', ''damage''}"
    show "persist_upgrades (shop_buy (label, key, cost) g) =
            (persist_upgrades g)(key \<mapsto> dict_get (persist_upgrades g) key + 1)"
      using shop_buy_upgrade [OF c k] by simp
    show "upgrades (player (shop_buy (label, key, cost) g)) =
            (upgrades (player g))(key \<mapsto> dict_get (upgrades (player g)) key + 1)"
      using shop_buy_upgrade [OF c k] by simp }
  { assume k: "key \<notin> {''hp'', ''speed'', ''damage''}"
    show "persist_upgrades (shop_buy (label, key, cost) g) = persist_upgrades g"
      using shop_buy_not_upgrade [OF c k] by simp
    show "upgrades (player (shop_buy (label, key, cost) g)) = upgrades (player g)"
      using shop_buy_not_upgrade [OF c k] by simp }
  { assume k: "key = ''hp''"
    show "maxhp (player (shop_buy (label, key, cost) g)) = maxhp (player g) + 20"
      unfolding k using shop_buy_hp [OF c] by simp
    show "hp (player (shop_buy (label, key, cost) g)) = maxhp (player g) + 20"
      unfolding k using shop_buy_hp [OF c] by simp }
  { assume k: "key = ''bomb''"
    show "bombs (player (shop_buy (label, key, cost) g)) = bombs (player g) + 1"
      unfolding k using c by (rule shop_buy_bomb) }
  { assume k: "key = ''heal''"
    show "hp (player (shop_buy (label, key, cost) g)) =
            min (maxhp (player g)) (hp (player g) + 40)"
      unfolding k using c by (rule shop_buy_heal) }
qed

lemma demo_game_shop:
  "coins (player demo_game) = 0 \<and> persist_upgrades demo_game = Map.empty \<and>
   bombs (player demo_game) = 2"
  by (simp add: demo_game_def start_game_def Game_init_def reset_run_def Player_def Let_def)

theorem shop_purchase_atomic_witness:
  "shop_keydown ShopReturn (0, demo_game) = Inr (0, shop_buy (opts ! nat 0) demo_game) \<and>
   shop_buy (''Max HP +20'', ''hp'', 8) demo_game = demo_game \<and>
   coins (player (shop_buy (''Max HP +20'', ''hp'', 8)
      (demo_game\<lparr>player := (player demo_game)\<lparr>coins := 9\<rparr>\<rparr>))) = 1 \<and>
   persist_upgrades (shop_buy (''Max HP +20'', ''hp'', 8)
      (demo_game\<lparr>player := (player demo_game)\<lparr>coins := 9\<rparr>\<rparr>)) ''hp'' = Some 1 \<and>
   bombs (player (shop_buy (''Extra Bomb'', ''bomb'', 6)
      (demo_game\<lparr>player := (player demo_game)\<lparr>coins := 9\<rparr>\<rparr>))) = 3"
proof -
  let ?g = "demo_game\<lparr>player := (player demo_game)\<lparr>coins := 9\<rparr>\<rparr>"
  have c: "coins (player ?g) = 9" "persist_upgrades ?g = Map.empty" "bombs (player ?g) = 2"
    by (simp_all add: demo_game_shop)
  note a = shop_purchase_atomic [of 0 demo_game 8 "''Max HP +20''" "''hp''"]
  note b = shop_purchase_atomic [of 0 ?g 8 "''Max HP +20''" "''hp''"]
  note d = shop_purchase_atomic [of 0 ?g 6 "''Extra Bomb''" "''bomb''"]
  have 1: "shop_keydown ShopReturn (0, demo_game) = Inr (0, shop_buy (opts ! nat 0) demo_game)"
    using a by simp
  have 2: "shop_buy (''Max HP +20'', ''hp'', 8) demo_game = demo_game"
    using a demo_game_shop by simp
  have 3: "coins (player (shop_buy (''Max HP +20'', ''hp'', 8) ?g)) = 1"
    using b c(1) by simp
  have 4: "persist_upgrades (shop_buy (''Max HP +20'', ''hp'', 8) ?g) ''hp'' = Some 1"
    using b c(1,2) by (simp add: dict_get_def)
  have 5: "bombs (player (shop_buy (''Extra Bomb'', ''bomb'', 6) ?g)) = 3"
    using d c(1,3) by simp
  from 1 2 3 4 5 show ?thesis by blast
qed

subsection \<open>The bomb\<close>

lemma in_blast_iff:
  "in_blast p e \<longleftrightarrow> (e_x e - p_x p)\<^sup>2 + (e_y e - p_y p)\<^sup>2 \<le> of_int (180 * 180)"
proof -
  have "sqrt ((e_x e - p_x p)\<^sup>2 + (e_y e - p_y p)\<^sup>2) \<le> sqrt (180\<^sup>2)
        \<longleftrightarrow> (e_x e - p_x p)\<^sup>2 + (e_y e - p_y p)\<^sup>2 \<le> 180\<^sup>2"
    by (rule real_sqrt_le_iff)
  then show ?thesis by (simp add: in_blast_def hypot_def)
qed

lemma in_blast_pos:
  "p_x p = p_x q \<Longrightarrow> p_y p = p_y q \<Longrightarrow> in_blast p e = in_blast q e"
  by (simp add: in_blast_def)

lemma bomb_loop_enemies:
  "enemies (fst (bomb_loop kept es k g)) = kept @ filter (\<lambda>e. \<not> in_blast (player g) e) es"
proof (induction kept es k g rule: bomb_loop.induct)
  case (1 kept killed g)
  then show ?case by simp
next
  case (2 kept e es killed g)
  have "in_blast (player (g\<lparr>player := (player g)\<lparr>score := score (player g) + 15\<rparr>\<rparr>)) =
        in_blast (player g)"
    by (rule ext) (simp add: in_blast_def)
  with 2 show ?case by (simp add: Let_def in_blast_iff)
qed

lemma bomb_loop_killed:
  "snd (bomb_loop kept es k g) = k + int (length (filter (in_blast (player g)) es))"
proof (induction kept es k g rule: bomb_loop.induct)
  case (1 kept killed g)
  then show ?case by simp
next
  case (2 kept e es killed g)
  have "in_blast (player (g\<lparr>player := (player g)\<lparr>score := score (player g) + 15\<rparr>\<rparr>)) =
        in_blast (player g)"
    by (rule ext) (simp add: in_blast_def)
  with 2 show ?case by (simp add: Let_def in_blast_iff)
qed

lemma bomb_loop_score:
  "score (player (fst (bomb_loop kept es k g))) =
     score (player g) + 15 * int (length (filter (in_blast (player g)) es))"
proof (induction kept es k g rule: bomb_loop.induct)
  case (1 kept killed g)
  then show ?case by simp
next
  case (2 kept e es killed g)
  have "in_blast (player (g\<lparr>player := (player g)\<lparr>score := score (player g) + 15\<rparr>\<rparr>)) =
        in_blast (player g)"
    by (rule ext) (simp add: in_blast_def)
  with 2 show ?case by (simp add: Let_def in_blast_iff)
qed

lemma bomb_loop_frame:
  "coins (player (fst (bomb_loop kept es k g))) = coins (player g) \<and>
   bombs (player (fst (bomb_loop kept es k g))) = bombs (player g) \<and>
   last_bomb (fst (bomb_loop kept es k g)) = last_bomb g"
  by (induction kept es k g rule: bomb_loop.induct) (simp_all add: Let_def)

lemma bomb_explode_enemies:
  "enemies (bomb_explode g) = filter (\<lambda>e. \<not> in_blast (player g) e) (enemies g)"
  using bomb_loop_enemies [of "[]" "enemies g" 0 g]
  by (simp add: bomb_explode_def Let_def case_prod_beta)

lemma bomb_explode_score:
  "score (player (bomb_explode g)) =
     score (player g) + 15 * int (length (filter (in_blast (player g)) (enemies g)))"
  using bomb_loop_score [of "[]" "enemies g" 0 g]
  by (simp add: bomb_explode_def Let_def case_prod_beta)

lemma bomb_explode_coins:
  "coins (player (bomb_explode g)) =
     coins (player g) + 2 * int (length (filter (in_blast (player g)) (enemies g)))"
  using bomb_loop_killed [of "[]" "enemies g" 0 g] bomb_loop_frame [of "[]" "enemies g" 0 g]
  by (simp add: bomb_explode_def Let_def case_prod_beta)

lemma bomb_explode_frame:
  "bombs (player (bomb_explode g)) = bombs (player g) \<and>
   last_bomb (bomb_explode g) = last_bomb g"
  using bomb_loop_frame [of "[]" "enemies g" 0 g]
  by (simp add: bomb_explode_def Let_def case_prod_beta)

lemma input_move_frame:
  "enemies (input_move dt inp g) = enemies g \<and>
   last_bomb (input_move dt inp g) = last_bomb g \<and>
   bombs (player (input_move dt inp g)) = bombs (player g) \<and>
   score (player (input_move dt inp g)) = score (player g) \<and>
   coins (player (input_move dt inp g)) = coins (player g)"
  by (simp add: input_move_def Let_def case_prod_beta)

lemma input_switch_frame:
  "enemies (input_switch inp g) = enemies g \<and>
   last_bomb (input_switch inp g) = last_bomb g \<and>
   bombs (player (input_switch inp g)) = bombs (player g) \<and>
   score (player (input_switch inp g)) = score (player g) \<and>
   coins (player (input_switch inp g)) = coins (player g)"
  by (simp add: input_switch_def switch_weapon_def Let_def)

lemma fire_frame:
  "enemies (fire w g) = enemies g \<and>
   last_bomb (fire w g) = last_bomb g \<and>
   bombs (player (fire w g)) = bombs (player g) \<and>
   score (player (fire w g)) = score (player g) \<and>
   coins (player (fire w g)) = coins (player g)"
  by (cases w) (simp_all add: fire_def Let_def)

lemma input_fire_frame:
  "input_fire inp g = Inr g' \<Longrightarrow>
   enemies g' = enemies g \<and> last_bomb g' = last_bomb g \<and>
   bombs (player g') = bombs (player g) \<and> score (player g') = score (player g) \<and>
   coins (player g') = coins (player g)"
  by (auto simp: input_fire_def Let_def fire_frame split: if_splits sum.splits)

lemma input_bomb_used:
  "bomb_used inp g \<Longrightarrow>
   bombs (player (input_bomb inp g)) = bombs (player g) - 1 \<and>
   last_bomb (input_bomb inp g) = clock2 inp \<and>
   enemies (input_bomb inp g) = filter (\<lambda>e. \<not> in_blast (player g) e) (enemies g) \<and>
   score (player (input_bomb inp g)) =
     score (player g) + 15 * int (length (filter (in_blast (player g)) (enemies g))) \<and>
   coins (player (input_bomb inp g)) =
     coins (player g) + 2 * int (length (filter (in_blast (player g)) (enemies g)))"
proof -
  assume u: "bomb_used inp g"
  define g1 where "g1 = g\<lparr>player := (player g)\<lparr>bombs := bombs (player g) - 1\<rparr>,
                           last_bomb := clock2 inp\<rparr>"
  have b: "in_blast (player g1) = in_blast (player g)"
    by (rule ext) (simp add: in_blast_def g1_def)
  have e: "input_bomb inp g = bomb_explode g1"
    using u by (simp add: input_bomb_def bomb_used_def g1_def)
  show ?thesis
    unfolding e
    using bomb_explode_enemies [of g1] bomb_explode_score [of g1] bomb_explode_coins [of g1]
      bomb_explode_frame [of g1]
    by (simp add: b) (simp add: g1_def)
qed

lemma input_bomb_unused: "\<not> bomb_used inp g \<Longrightarrow> input_bomb inp g = g"
  unfolding input_bomb_def bomb_used_def by (rule if_not_P)

lemma input_pre_bomb:
  "bomb_used inp (input_switch inp (input_move dt inp g)) = bomb_used inp g"
  by (simp add: bomb_used_def input_move_frame input_switch_frame)

text \<open>
  Claim C7. In a tick of \<^verbatim>\<open>input_play\<close> that returns, the bomb is used exactly when a bomb
  key is held, the bomb count is positive and more than 0.5 seconds lie between the clock
  and the time stored at the previous use; so a use implies a positive count and at least
  0.5 seconds. A use lowers the bomb count by one, stores the clock, removes exactly the
  enemies whose distance to the player (at the position after this tick's movement) is at
  most 180, and adds 15 to the score and 2 to the coins for every removed enemy. Without a
  use the bomb count, the enemies, the score, the coins and the stored time stay as they
  were.
\<close>

theorem bomb_action:
  assumes "input_play dt inp g = Inr g'"
  shows "(bomb_used inp g \<longrightarrow>
            0 < bombs (player g) \<and> 0.5 \<le> clock1 inp - last_bomb g \<and>
            bombs (player g') = bombs (player g) - 1 \<and>
            last_bomb g' = clock2 inp \<and>
            enemies g' = filter (\<lambda>e. \<not> in_blast (player g') e) (enemies g) \<and>
            score (player g') =
              score (player g) + 15 * int (length (filter (in_blast (player g')) (enemies g))) \<and>
            coins (player g') =
              coins (player g) + 2 * int (length (filter (in_blast (player g')) (enemies g)))) \<and>
         (\<not> bomb_used inp g \<longrightarrow>
            bombs (player g') = bombs (player g) \<and> last_bomb g' = last_bomb g \<and>
            enemies g' = enemies g \<and> score (player g') = score (player g) \<and>
            coins (player g') = coins (player g))"
proof -
  define g1 where "g1 = input_switch inp (input_move dt inp g)"
  define g2 where "g2 = input_bomb inp g1"
  have f: "input_fire inp g2 = Inr g'"
    using assms by (simp add: input_play_def g1_def g2_def)
  note fr = input_fire_frame [OF f]
  have pre: "enemies g1 = enemies g \<and> last_bomb g1 = last_bomb g \<and>
             bombs (player g1) = bombs (player g) \<and> score (player g1) = score (player g) \<and>
             coins (player g1) = coins (player g)"
    by (simp add: g1_def input_move_frame input_switch_frame)
  have u: "bomb_used inp g1 = bomb_used inp g"
    by (simp add: g1_def input_pre_bomb)
  have pos: "p_x (player g') = p_x (player g1) \<and> p_y (player g') = p_y (player g1)"
    using input_fire_pos [OF f] by (simp add: g2_def input_bomb_player)
  have b: "in_blast (player g') = in_blast (player g1)"
    by (rule ext) (rule in_blast_pos, simp_all add: pos)
  show ?thesis
  proof (cases "bomb_used inp g")
    case True
    then have "bomb_used inp g1" by (simp add: u)
    from input_bomb_used [OF this] fr pre b True show ?thesis
      by (simp add: g2_def bomb_used_def)
  next
    case False
    then have "g2 = g1" by (simp add: g2_def u input_bomb_unused)
    with fr pre False show ?thesis by simp
  qed
qed

lemma input_play_pos:
  assumes "input_play dt inp g = Inr g'"
  shows "p_x (player g') = p_x (player (input_move dt inp g)) \<and>
         p_y (player g') = p_y (player (input_move dt inp g))"
  using assms
    input_fire_pos [of inp "input_bomb inp (input_switch inp (input_move dt inp g))" g']
  by (simp add: input_play_def input_bomb_player input_switch_pos)

lemma bomb_demo_facts:
  "bombs (player bomb_demo) = 2 \<and> last_bomb bomb_demo = 0 \<and>
   score (player bomb_demo) = 0 \<and> coins (player bomb_demo) = 0 \<and>
   enemies bomb_demo = [Enemy 500 400 Chaser 1 0, Enemy 0 0 Chaser 1 0]"
  by (simp add: bomb_demo_def demo_game_def start_game_def Game_init_def reset_run_def
      Player_def Let_def)

lemma bomb_demo_pos:
  "p_x (player (input_move (1/60) (no_keys\<lparr>K_x := True\<rparr>) bomb_demo)) = 500 \<and>
   p_y (player (input_move (1/60) (no_keys\<lparr>K_x := True\<rparr>) bomb_demo)) = 455"
  by (simp add: input_move_def move_dir_def hypot_def no_keys_def bomb_demo_def demo_game_def
      start_game_def Game_init_def reset_run_def Player_def Let_def clamp_def WIDTH_def
      HEIGHT_def)

theorem bomb_action_witness:
  "bomb_used (no_keys\<lparr>K_x := True\<rparr>) bomb_demo \<and>
   \<not> isl (input_play (1/60) (no_keys\<lparr>K_x := True\<rparr>) bomb_demo) \<and>
   bombs (player (projr (input_play (1/60) (no_keys\<lparr>K_x := True\<rparr>) bomb_demo))) = 1 \<and>
   enemies (projr (input_play (1/60) (no_keys\<lparr>K_x := True\<rparr>) bomb_demo)) =
     [Enemy 0 0 Chaser 1 0] \<and>
   score (player (projr (input_play (1/60) (no_keys\<lparr>K_x := True\<rparr>) bomb_demo))) = 15 \<and>
   coins (player (projr (input_play (1/60) (no_keys\<lparr>K_x := True\<rparr>) bomb_demo))) = 2 \<and>
   \<not> bomb_used no_keys bomb_demo \<and>
   bombs (player (projr (input_play (1/60) no_keys bomb_demo))) = 2"
proof -
  define g' where "g' = projr (input_play (1/60) (no_keys\<lparr>K_x := True\<rparr>) bomb_demo)"
  have r1: "input_play (1/60) (no_keys\<lparr>K_x := True\<rparr>) bomb_demo = Inr g'"
    by (simp add: g'_def input_play_def input_fire_def no_keys_def)
  have r2: "input_play (1/60) no_keys bomb_demo = Inr (projr (input_play (1/60) no_keys bomb_demo))"
    by (simp add: input_play_def input_fire_def no_keys_def)
  have u1: "bomb_used (no_keys\<lparr>K_x := True\<rparr>) bomb_demo"
    by (simp add: bomb_used_def no_keys_def bomb_demo_facts)
  have u2: "\<not> bomb_used no_keys bomb_demo"
    by (simp add: bomb_used_def no_keys_def)
  have pos: "p_x (player g') = 500 \<and> p_y (player g') = 455"
    using input_play_pos [OF r1] bomb_demo_pos by simp
  have b1: "in_blast (player g') (Enemy 500 400 Chaser 1 0)"
    by (simp add: in_blast_iff pos Enemy_def Let_def)
  have b2: "\<not> in_blast (player g') (Enemy 0 0 Chaser 1 0)"
    by (simp add: in_blast_iff pos Enemy_def Let_def)
  from bomb_action [OF r1] bomb_action [OF r2] u1 u2 r1 b1 b2 show ?thesis
    unfolding g'_def [symmetric] by (simp add: bomb_demo_facts)
qed

subsection \<open>Power-ups\<close>

lemma pickup_pos:
  "p_x (pickup k p) = p_x p \<and> p_y (pickup k p) = p_y p \<and> p_r (pickup k p) = p_r p"
  by (cases k) (simp_all add: pickup_def)

lemma reached_pickup: "reached (pickup k p) q = reached p q"
  by (simp add: reached_def pickup_pos)

lemma u_type_fallen: "u_type (fallen dt q) = u_type q"
  by (simp add: fallen_def)

lemma powerups_loop_kept:
  "powerups (powerups_loop dt kept qs g) =
     kept @ filter (\<lambda>q. \<not> reached (player g) q \<and> \<not> u_y q > of_int (HEIGHT + 40))
              (map (fallen dt) qs)"
proof (induction dt kept qs g rule: powerups_loop.induct)
  case (1 dt kept g)
  then show ?case by simp
next
  case (2 dt kept q0 qs g)
  have r: "reached (player (g\<lparr>player := pickup (u_type (fallen dt q0)) (player g)\<rparr>)) =
           reached (player g)"
    by (rule ext) (simp add: reached_pickup)
  have c: "reached (player g) (fallen dt q0) \<longleftrightarrow>
           (u_x q0 - p_x (player g))\<^sup>2 + (u_y q0 + 40 * dt - p_y (player g))\<^sup>2
             \<le> (of_int (p_r (player g) + 12))\<^sup>2"
    by (simp add: reached_def fallen_def)
  show ?case
  proof (cases "reached (player g) (fallen dt q0)")
    case True
    with 2(1) r c show ?thesis by (simp add: Let_def fallen_def)
  next
    case False
    with 2(2,3) c show ?thesis by (simp add: Let_def fallen_def)
  qed
qed

lemma powerups_loop_player:
  "player (powerups_loop dt kept qs g) =
     foldl (\<lambda>p q. pickup (u_type q) p) (player g)
       (filter (reached (player g)) (map (fallen dt) qs))"
proof (induction dt kept qs g rule: powerups_loop.induct)
  case (1 dt kept g)
  then show ?case by simp
next
  case (2 dt kept q0 qs g)
  have r: "reached (player (g\<lparr>player := pickup (u_type (fallen dt q0)) (player g)\<rparr>)) =
           reached (player g)"
    by (rule ext) (simp add: reached_pickup)
  have c: "reached (player g) (fallen dt q0) \<longleftrightarrow>
           (u_x q0 - p_x (player g))\<^sup>2 + (u_y q0 + 40 * dt - p_y (player g))\<^sup>2
             \<le> (of_int (p_r (player g) + 12))\<^sup>2"
    by (simp add: reached_def fallen_def)
  show ?case
  proof (cases "reached (player g) (fallen dt q0)")
    case True
    with 2(1) r c show ?thesis by (simp add: Let_def fallen_def)
  next
    case False
    with 2(2,3) c show ?thesis by (simp add: Let_def fallen_def)
  qed
qed

lemma shop_buy_pos:
  "p_x (player (shop_buy opt g)) = p_x (player g) \<and>
   p_y (player (shop_buy opt g)) = p_y (player g) \<and>
   p_r (player (shop_buy opt g)) = p_r (player g)"
  by (cases opt) (simp add: shop_buy_def Let_def)

lemma buy_bombs:
  "6 * int n \<le> coins (player g) \<Longrightarrow>
   bombs (player ((shop_buy (l, ''bomb'', 6) ^^ n) g)) = bombs (player g) + int n \<and>
   coins (player ((shop_buy (l, ''bomb'', 6) ^^ n) g)) = coins (player g) - 6 * int n"
proof (induction n)
  case 0
  then show ?case by simp
next
  case (Suc n)
  then have ih: "bombs (player ((shop_buy (l, ''bomb'', 6) ^^ n) g)) = bombs (player g) + int n"
    "coins (player ((shop_buy (l, ''bomb'', 6) ^^ n) g)) = coins (player g) - 6 * int n"
    by simp_all
  have c: "6 \<le> coins (player ((shop_buy (l, ''bomb'', 6) ^^ n) g))"
    using Suc.prems ih(2) by simp
  show ?case
    using shop_buy_bomb [OF c, of l] shop_buy_coins [OF c, of l "''bomb''"] ih
    by simp
qed

lemma buy_bombs_pos:
  "p_x (player ((shop_buy opt ^^ n) g)) = p_x (player g) \<and>
   p_y (player ((shop_buy opt ^^ n) g)) = p_y (player g) \<and>
   p_r (player ((shop_buy opt ^^ n) g)) = p_r (player g)"
  by (induction n) (simp_all add: shop_buy_pos)

lemma demo_game_player:
  "p_x (player demo_game) = 500 \<and> p_y (player demo_game) = 455 \<and>
   p_r (player demo_game) = 16 \<and> bombs (player demo_game) = 2"
  by (simp add: demo_game_def start_game_def Game_init_def reset_run_def Player_def Let_def
      WIDTH_def HEIGHT_def)

lemma demo_game_hp:
  "hp (player demo_game) = 120 \<and> maxhp (player demo_game) = 120"
  by (simp add: demo_game_def start_game_def Game_init_def reset_run_def Player_def Let_def
      PLAYER_MAX_HP_def dict_get_def)

lemma stocked_game_player:
  "bombs (player stocked_game) = 7 \<and> p_x (player stocked_game) = 500 \<and>
   p_y (player stocked_game) = 455 \<and> p_r (player stocked_game) = 16"
  using buy_bombs [of 5 "demo_game\<lparr>player := (player demo_game)\<lparr>coins := 30\<rparr>\<rparr>" "''Extra Bomb''"]
    buy_bombs_pos [where opt = "(''Extra Bomb'', ''bomb'', 6)" and n = 5
      and g = "demo_game\<lparr>player := (player demo_game)\<lparr>coins := 30\<rparr>\<rparr>"]
  by (simp add: stocked_game_def demo_game_player)

text \<open>
  Claim C8 as stated fails for the bomb power-up: the shop sells extra bombs without a cap,
  so a player can hold 7 bombs, and picking up a bomb power-up then lowers the count to 6.
\<close>

theorem pickup_bomb_lowers_count:
  "bombs (player stocked_game) = 7 \<and>
   bombs (player (update_powerups (1/60) stocked_game)) = 6"
proof -
  have q: "powerups stocked_game = [\<lparr>u_x = 500, u_y = 455, u_type = BombUp, u_t = 0\<rparr>]"
    by (simp add: stocked_game_def)
  have r: "reached (player stocked_game)
             (fallen (1/60) \<lparr>u_x = 500, u_y = 455, u_type = BombUp, u_t = 0\<rparr>)"
    by (simp add: reached_def fallen_def stocked_game_player power2_eq_square)
  have "player (update_powerups (1/60) stocked_game) = pickup BombUp (player stocked_game)"
    unfolding update_powerups_def powerups_loop_player using r
    by (simp add: q u_type_fallen)
  then show ?thesis
    by (simp add: pickup_def clamp_def stocked_game_player)
qed

text \<open>
  Claim C8, amended. A heal sets the hp to \<open>hp + 40\<close> clamped to \<open>[0, maxhp]\<close>, which is
  \<open>min maxhp (hp + 40)\<close> when neither is negative; rapid and shield set their timer to 6
  whatever it was; a bomb sets the count to \<open>bombs + 1\<close> clamped to \<open>[0, 6]\<close>: one more
  below 6, and 6 from 6 upwards; a coin adds 5 coins; no other field of the player changes.
  After \<^verbatim>\<open>update_powerups\<close> the power-ups left are those that, after falling, are
  neither in reach of the player nor below \<open>HEIGHT + 40\<close>, and the player is the old
  player with the effects of exactly the power-ups in reach applied in order, so a power-up
  discarded at the bottom has no effect.
\<close>

theorem powerup_effects:
  "pickup Heal p = p\<lparr>hp := clamp (hp p + 40) 0 (maxhp p)\<rparr> \<and>
   (0 \<le> hp p + 40 \<and> 0 \<le> maxhp p \<longrightarrow>
      clamp (hp p + 40) 0 (maxhp p) = min (maxhp p) (hp p + 40)) \<and>
   pickup Rapid p = p\<lparr>rapid := 6\<rparr> \<and>
   pickup ShieldUp p = p\<lparr>shield := 6\<rparr> \<and>
   pickup BombUp p = p\<lparr>bombs := clamp (bombs p + 1) 0 6\<rparr> \<and>
   (0 \<le> bombs p \<and> bombs p < 6 \<longrightarrow> clamp (bombs p + 1) 0 6 = bombs p + 1) \<and>
   (6 \<le> bombs p \<longrightarrow> clamp (bombs p + 1) 0 6 = 6) \<and>
   pickup Coin p = p\<lparr>coins := coins p + 5\<rparr> \<and>
   powerups (update_powerups dt g) =
     filter (\<lambda>q. \<not> reached (player g) q \<and> \<not> u_y q > of_int (HEIGHT + 40))
       (map (fallen dt) (powerups g)) \<and>
   player (update_powerups dt g) =
     foldl (\<lambda>p q. pickup (u_type q) p) (player g)
       (filter (reached (player g)) (map (fallen dt) (powerups g)))"
  by (simp add: pickup_def clamp_def update_powerups_def powerups_loop_kept
      powerups_loop_player)

theorem powerup_effects_witness:
  "hp (pickup Heal ((player demo_game)\<lparr>hp := 100\<rparr>)) = 120 \<and>
   hp (pickup Heal ((player demo_game)\<lparr>hp := 30\<rparr>)) = 70 \<and>
   bombs (pickup BombUp (player demo_game)) = 3 \<and>
   bombs (pickup BombUp ((player demo_game)\<lparr>bombs := 6\<rparr>)) = 6 \<and>
   rapid (pickup Rapid ((player demo_game)\<lparr>rapid := 2\<rparr>)) = 6 \<and>
   powerups (update_powerups 1
      (demo_game\<lparr>powerups := [\<lparr>u_x = 100, u_y = 680, u_type = Heal, u_t = 3\<rparr>]\<rparr>)) = [] \<and>
   player (update_powerups 1
      (demo_game\<lparr>powerups := [\<lparr>u_x = 100, u_y = 680, u_type = Heal, u_t = 3\<rparr>]\<rparr>)) =
     player demo_game"
  using powerup_effects [of "(player demo_game)\<lparr>hp := 100\<rparr>" 1
      "demo_game\<lparr>powerups := [\<lparr>u_x = 100, u_y = 680, u_type = Heal, u_t = 3\<rparr>]\<rparr>"]
    powerup_effects [of "(player demo_game)\<lparr>hp := 30\<rparr>" 1 demo_game]
    powerup_effects [of "player demo_game" 1 demo_game]
    powerup_effects [of "(player demo_game)\<lparr>bombs := 6\<rparr>" 1 demo_game]
    powerup_effects [of "(player demo_game)\<lparr>rapid := 2\<rparr>" 1 demo_game]
  by (simp add: demo_game_player demo_game_hp reached_def fallen_def HEIGHT_def
      power2_eq_square)

subsection \<open>Wave generation\<close>

lemma randint_range: "a \<le> b \<Longrightarrow> a \<le> randint a b u \<and> randint a b u \<le> b"
  by (simp add: randint_def randbelow_def)

lemma Enemy_fields:
  "e_x (Enemy x y k lvl u) = x \<and> e_y (Enemy x y k lvl u) = y \<and>
   e_kind (Enemy x y k lvl u) = k \<and> level (Enemy x y k lvl u) = lvl"
  by (simp add: Enemy_def Let_def)

lemma choices_kind_not_boss: "choices_kind u \<noteq> Boss"
  by (simp add: choices_kind_def)

lemma on_edge_top:
  "on_edge (Enemy (of_int (randint 50 (WIDTH - 50) u)) (-40) k lvl c)"
  using randint_range [of 50 "WIDTH - 50" u]
  by (simp add: on_edge_def Enemy_fields WIDTH_def)

lemma on_edge_bottom:
  "on_edge (Enemy (of_int (randint 50 (WIDTH - 50) u)) (of_int HEIGHT + 40) k lvl c)"
  using randint_range [of 50 "WIDTH - 50" u]
  by (simp add: on_edge_def Enemy_fields WIDTH_def)

lemma on_edge_left:
  "on_edge (Enemy (-40) (of_int (randint 50 (HEIGHT - 50) u)) k lvl c)"
  using randint_range [of 50 "HEIGHT - 50" u]
  by (simp add: on_edge_def Enemy_fields HEIGHT_def)

lemma on_edge_right:
  "on_edge (Enemy (of_int WIDTH + 40) (of_int (randint 50 (HEIGHT - 50) u)) k lvl c)"
  using randint_range [of 50 "HEIGHT - 50" u]
  by (simp add: on_edge_def Enemy_fields HEIGHT_def)

lemma spawn_enemy_edge_new:
  "\<exists>e. enemies (spawn_enemy_edge None lvl g) = enemies g @ [e] \<and>
       level e = lvl \<and> e_kind e \<noteq> Boss \<and> on_edge e"
  by (cases "choice_side (fst (draw (rng g)))")
    (simp_all add: spawn_enemy_edge_def Let_def case_prod_beta Enemy_fields
      choices_kind_not_boss on_edge_top on_edge_bottom on_edge_left on_edge_right)

lemma spawn_enemy_edge_difficulty:
  "difficulty (spawn_enemy_edge k lvl g) = difficulty g"
  by (simp add: spawn_enemy_edge_def Let_def case_prod_beta split: option.split)

lemma spawn_n_difficulty: "difficulty (spawn_n n lvl g) = difficulty g"
  by (induction n lvl g rule: spawn_n.induct) (simp_all add: spawn_enemy_edge_difficulty)

lemma spawn_n_new:
  "\<exists>es. enemies (spawn_n n lvl g) = enemies g @ es \<and> length es = n \<and>
        (\<forall>e\<in>set es. level e = lvl \<and> e_kind e \<noteq> Boss \<and> on_edge e)"
proof (induction n lvl g rule: spawn_n.induct)
  case (1 lvl g)
  then show ?case by simp
next
  case (2 n lvl g)
  obtain e where e: "enemies (spawn_enemy_edge None lvl g) = enemies g @ [e]"
    "level e = lvl" "e_kind e \<noteq> Boss" "on_edge e"
    using spawn_enemy_edge_new by blast
  obtain es where es: "enemies (spawn_n n lvl (spawn_enemy_edge None lvl g)) =
      enemies (spawn_enemy_edge None lvl g) @ es" "length es = n"
    "\<forall>e\<in>set es. level e = lvl \<and> e_kind e \<noteq> Boss \<and> on_edge e"
    using 2 by blast
  have "enemies (spawn_n (Suc n) lvl g) = enemies g @ (e # es)"
    using e(1) es(1) by simp
  moreover have "length (e # es) = Suc n" using es(2) by simp
  moreover have "\<forall>e'\<in>set (e # es). level e' = lvl \<and> e_kind e' \<noteq> Boss \<and> on_edge e'"
    using e es(3) by simp
  ultimately show ?case by blast
qed

lemma spawn_wave_new:
  assumes "0 \<le> wave g"
  shows "\<exists>base boss. enemies (spawn_wave g) = enemies g @ base @ boss \<and>
     int (length base) = min (4 + 2 * (wave g + 1)) 40 \<and>
     (\<forall>e\<in>set base. level e = 1 + (wave g + 1) div 3 \<and> e_kind e \<noteq> Boss \<and> on_edge e) \<and>
     (\<forall>e\<in>set boss. e_kind e = Boss) \<and>
     map (\<lambda>e. (level e, e_x e, e_y e)) boss =
       (if (wave g + 1) mod 5 = 0
        then [(3 + (wave g + 1) div 5, of_int WIDTH / 2, -120)] else [])"
proof -
  define g2 where "g2 = g\<lparr>wave := wave g + 1,
                           difficulty := 1 + of_int (wave g + 1) * 0.12\<rparr>"
  define n where "n = nat (min (4 + (wave g + 1) * 2) 40)"
  define g3 where "g3 = spawn_n n (1 + (wave g + 1) div 3) g2"
  obtain base where base: "enemies g3 = enemies g2 @ base" "length base = n"
    "\<forall>e\<in>set base. level e = 1 + (wave g + 1) div 3 \<and> e_kind e \<noteq> Boss \<and> on_edge e"
    unfolding g3_def using spawn_n_new by blast
  have w3: "wave g3 = wave g + 1"
    by (simp add: g3_def spawn_n_sched g2_def)
  have len: "int (length base) = min (4 + 2 * (wave g + 1)) 40"
    using assms base(2) by (simp add: n_def)
  have sw: "enemies (spawn_wave g) = enemies g3 @
      (if (wave g + 1) mod 5 = 0
       then [Enemy (of_int WIDTH / 2) (-120) Boss (3 + (wave g + 1) div 5)
               (fst (draw (rng g3)))]
       else [])"
    by (simp add: spawn_wave_def Let_def case_prod_beta g3_def g2_def n_def spawn_n_sched)
  show ?thesis
  proof (cases "(wave g + 1) mod 5 = 0")
    case True
    let ?b = "Enemy (of_int WIDTH / 2) (-120) Boss (3 + (wave g + 1) div 5) (fst (draw (rng g3)))"
    have "enemies (spawn_wave g) = enemies g @ base @ [?b]"
      using True sw base(1) by (simp add: g2_def)
    moreover have "map (\<lambda>e. (level e, e_x e, e_y e)) [?b] =
        (if (wave g + 1) mod 5 = 0
         then [(3 + (wave g + 1) div 5, of_int WIDTH / 2, -120)] else [])"
      using True by (simp add: Enemy_fields)
    moreover have "\<forall>e\<in>set [?b]. e_kind e = Boss" by (simp add: Enemy_fields)
    ultimately show ?thesis using len base(3) by blast
  next
    case False
    have "enemies (spawn_wave g) = enemies g @ base @ []"
      using False sw base(1) by (simp add: g2_def)
    moreover have "map (\<lambda>e. (level e, e_x e, e_y e)) ([]::enemy list) =
        (if (wave g + 1) mod 5 = 0
         then [(3 + (wave g + 1) div 5, of_int WIDTH / 2, -120)] else [])"
      using False by simp
    moreover have "\<forall>e\<in>set ([]::enemy list). e_kind e = Boss" by simp
    ultimately show ?thesis using len base(3) by blast
  qed
qed

lemma spawn_wave_difficulty:
  "difficulty (spawn_wave g) = 1 + of_int (wave g + 1) * 0.12"
  by (simp add: spawn_wave_def Let_def case_prod_beta spawn_n_difficulty)

lemma filter_boss_split:
  assumes "\<forall>e\<in>set base. e_kind e \<noteq> Boss" and "\<forall>e\<in>set boss. e_kind e = Boss"
  shows "filter (\<lambda>e. e_kind e \<noteq> Boss) (base @ boss) = base \<and>
         filter (\<lambda>e. e_kind e = Boss) (base @ boss) = boss"
  using assms by (simp add: filter_id_conv filter_empty_conv)

text \<open>
  Claim C4. When the scheduler is in the interlude and the countdown expires, the wave
  counter becomes \<open>N = wave + 1\<close>, the phase becomes active and the difficulty
  \<open>1 + N \<times> 0.12\<close>. The enemies of before stay, and the new ones are: exactly
  \<open>min (4 + 2N) 40\<close> enemies that are not bosses, each of level \<open>1 + N div 3\<close> and on one
  of the four spawn borders, and the bosses, which are a single one of level \<open>3 + N div 5\<close>
  at \<open>(WIDTH / 2, -120)\<close> when \<open>N mod 5 = 0\<close> and none otherwise.
\<close>

theorem wave_generation:
  assumes "wave_state g = Interlude" and "interlude_time g - dt \<le> 0" and "0 \<le> wave g"
  shows "wave (update_wave_and_spawning dt inp g) = wave g + 1 \<and>
     wave_state (update_wave_and_spawning dt inp g) = Active \<and>
     difficulty (update_wave_and_spawning dt inp g) = 1 + of_int (wave g + 1) * 0.12 \<and>
     take (length (enemies g)) (enemies (update_wave_and_spawning dt inp g)) = enemies g \<and>
     int (length (filter (\<lambda>e. e_kind e \<noteq> Boss)
            (new_enemies g (update_wave_and_spawning dt inp g))))
       = min (4 + 2 * (wave g + 1)) 40 \<and>
     (\<forall>e\<in>set (new_enemies g (update_wave_and_spawning dt inp g)).
        e_kind e \<noteq> Boss \<longrightarrow> level e = 1 + (wave g + 1) div 3 \<and> on_edge e) \<and>
     map (\<lambda>e. (level e, e_x e, e_y e))
         (filter (\<lambda>e. e_kind e = Boss) (new_enemies g (update_wave_and_spawning dt inp g)))
       = (if (wave g + 1) mod 5 = 0
          then [(3 + (wave g + 1) div 5, of_int WIDTH / 2, -120)] else [])"
proof -
  define g1 where "g1 = g\<lparr>interlude_time := interlude_time g - dt, wave_state := Active\<rparr>"
  have u: "update_wave_and_spawning dt inp g = spawn_wave g1"
    using assms(1,2) by (simp add: update_wave_and_spawning_def Let_def g1_def)
  have g1: "wave g1 = wave g" "enemies g1 = enemies g" "wave_state g1 = Active"
    by (simp_all add: g1_def)
  obtain base boss where bb: "enemies (spawn_wave g1) = enemies g @ base @ boss"
    "int (length base) = min (4 + 2 * (wave g + 1)) 40"
    "\<forall>e\<in>set base. level e = 1 + (wave g + 1) div 3 \<and> e_kind e \<noteq> Boss \<and> on_edge e"
    "\<forall>e\<in>set boss. e_kind e = Boss"
    "map (\<lambda>e. (level e, e_x e, e_y e)) boss =
       (if (wave g + 1) mod 5 = 0
        then [(3 + (wave g + 1) div 5, of_int WIDTH / 2, -120)] else [])"
    using spawn_wave_new [of g1] assms(3) g1 by auto
  have new: "new_enemies g (spawn_wave g1) = base @ boss"
    by (simp add: new_enemies_def bb(1))
  have fs: "filter (\<lambda>e. e_kind e \<noteq> Boss) (base @ boss) = base"
    "filter (\<lambda>e. e_kind e = Boss) (base @ boss) = boss"
    using filter_boss_split [of base boss] bb(3,4) by simp_all
  have a: "wave (spawn_wave g1) = wave g + 1 \<and> wave_state (spawn_wave g1) = Active"
    by (simp add: spawn_wave_sched g1)
  have d: "difficulty (spawn_wave g1) = 1 + of_int (wave g + 1) * 0.12"
    by (simp add: spawn_wave_difficulty g1)
  have t: "take (length (enemies g)) (enemies (spawn_wave g1)) = enemies g"
    by (simp add: bb(1))
  have l: "\<forall>e\<in>set (base @ boss). e_kind e \<noteq> Boss \<longrightarrow>
             level e = 1 + (wave g + 1) div 3 \<and> on_edge e"
    using bb(3,4) by auto
  show ?thesis
    unfolding u new fs using a d t l bb(2,5) by simp
qed

theorem wave_generation_witness:
  "wave (update_wave_and_spawning 4 no_keys (demo_game\<lparr>wave := 4\<rparr>)) = 5 \<and>
   difficulty (update_wave_and_spawning 4 no_keys (demo_game\<lparr>wave := 4\<rparr>)) = 1.6 \<and>
   length (filter (\<lambda>e. e_kind e \<noteq> Boss)
      (new_enemies (demo_game\<lparr>wave := 4\<rparr>)
         (update_wave_and_spawning 4 no_keys (demo_game\<lparr>wave := 4\<rparr>)))) = 14 \<and>
   map (\<lambda>e. (level e, e_x e, e_y e))
      (filter (\<lambda>e. e_kind e = Boss)
         (new_enemies (demo_game\<lparr>wave := 4\<rparr>)
            (update_wave_and_spawning 4 no_keys (demo_game\<lparr>wave := 4\<rparr>)))) = [(4, 500, -120)] \<and>
   length (filter (\<lambda>e. e_kind e \<noteq> Boss)
      (new_enemies demo_game (update_wave_and_spawning 4 no_keys demo_game))) = 6 \<and>
   filter (\<lambda>e. e_kind e = Boss)
      (new_enemies demo_game (update_wave_and_spawning 4 no_keys demo_game)) = []"
  using wave_generation [of "demo_game\<lparr>wave := 4\<rparr>" 4 no_keys]
    wave_generation [of demo_game 4 no_keys] demo_game_sched
  by (simp add: WIDTH_def)

subsection \<open>Frame properties of the physics passes\<close>


lemma enemy_update_keeps:
  "e_hp (fst (enemy_update dt p e)) = e_hp e \<and> level (fst (enemy_update dt p e)) = level e"
  by (cases "e_kind e") (simp_all add: enemy_update_def Let_def)

lemma enemy_update_shots:
  "b \<in> set (snd (enemy_update dt p e)) \<Longrightarrow> b_owner b = OwnEnemy \<and> 0 \<le> b_dmg b"
  by (cases "e_kind e") (auto simp: enemy_update_def Let_def split: if_splits)

lemma drop_powerup_frame:
  "player (drop_powerup x y g) = player g \<and> lasers (drop_powerup x y g) = lasers g \<and>
   bullets (drop_powerup x y g) = bullets g"
  by (simp add: drop_powerup_def Let_def case_prod_beta)

lemma enemy_reward_player:
  "player (enemy_reward e g) =
     (player g)\<lparr>score := score (player g) + (10 + level e * 3),
                coins := coins (player g) + (1 + level e div 2)\<rparr>"
  by (simp add: enemy_reward_def Let_def case_prod_beta drop_powerup_frame)

lemma enemy_reward_frame:
  "lasers (enemy_reward e g) = lasers g \<and> bullets (enemy_reward e g) = bullets g"
  by (simp add: enemy_reward_def Let_def case_prod_beta drop_powerup_frame)




lemma enemies_loop_dead:
  "e_hp e0 \<le> 0 \<Longrightarrow>
   enemies_loop dt kept (e0 # es) g =
     enemies_loop dt kept es
       (enemy_reward (moved dt (player g) e0)
          (g\<lparr>bullets := bullets g @ snd (enemy_update dt (player g) e0)\<rparr>))"
  by (simp add: Let_def case_prod_beta moved_def enemy_update_keeps)

lemma enemies_loop_alive:
  "\<not> e_hp e0 \<le> 0 \<Longrightarrow>
   enemies_loop dt kept (e0 # es) g =
     enemies_loop dt (kept @ [moved dt (player g) e0]) es
       (g\<lparr>bullets := bullets g @ snd (enemy_update dt (player g) e0)\<rparr>)"
  by (simp add: Let_def case_prod_beta moved_def enemy_update_keeps)




lemma enemies_loop_hp:
  "hp (player (enemies_loop dt kept es g)) = hp (player g) \<and>
   maxhp (player (enemies_loop dt kept es g)) = maxhp (player g)"
proof (induction es arbitrary: kept g)
  case Nil
  then show ?case by simp
next
  case (Cons e0 es)
  show ?case
  proof (cases "e_hp e0 \<le> 0")
    case True
    show ?thesis
      unfolding enemies_loop_dead [OF True] by (simp add: Cons.IH enemy_reward_player)
  next
    case False
    show ?thesis
      unfolding enemies_loop_alive [OF False] by (simp add: Cons.IH)
  qed
qed


lemma enemies_loop_shield:
  "shield (player (enemies_loop dt kept es g)) = shield (player g)"
proof (induction es arbitrary: kept g)
  case Nil
  then show ?case by simp
next
  case (Cons e0 es)
  show ?case
  proof (cases "e_hp e0 \<le> 0")
    case True
    show ?thesis
      unfolding enemies_loop_dead [OF True] by (simp add: Cons.IH enemy_reward_player)
  next
    case False
    show ?thesis
      unfolding enemies_loop_alive [OF False] by (simp add: Cons.IH)
  qed
qed

lemma enemies_loop_lasers: "lasers (enemies_loop dt kept es g) = lasers g"
proof (induction es arbitrary: kept g)
  case Nil
  then show ?case by simp
next
  case (Cons e0 es)
  show ?case
  proof (cases "e_hp e0 \<le> 0")
    case True
    show ?thesis
      unfolding enemies_loop_dead [OF True] by (simp add: Cons.IH enemy_reward_frame)
  next
    case False
    show ?thesis
      unfolding enemies_loop_alive [OF False] by (simp add: Cons.IH)
  qed
qed

lemma enemies_loop_bullets:
  "b \<in> set (bullets (enemies_loop dt kept es g)) \<Longrightarrow>
   b \<in> set (bullets g) \<or> b_owner b = OwnEnemy \<and> 0 \<le> b_dmg b"
proof (induction es arbitrary: kept g)
  case Nil
  then show ?case by simp
next
  case (Cons e0 es)
  let ?g1 = "g\<lparr>bullets := bullets g @ snd (enemy_update dt (player g) e0)\<rparr>"
  have s: "b \<in> set (bullets ?g1) \<Longrightarrow>
           b \<in> set (bullets g) \<or> b_owner b = OwnEnemy \<and> 0 \<le> b_dmg b"
    using enemy_update_shots [of b dt "player g" e0] by auto
  show ?case
  proof (cases "e_hp e0 \<le> 0")
    case True
    have "b \<in> set (bullets (enemy_reward (moved dt (player g) e0) ?g1)) \<or>
          b_owner b = OwnEnemy \<and> 0 \<le> b_dmg b"
      using Cons.prems unfolding enemies_loop_dead [OF True] by (rule Cons.IH)
    then show ?thesis
      using s by (auto simp: enemy_reward_frame)
  next
    case False
    have "b \<in> set (bullets ?g1) \<or> b_owner b = OwnEnemy \<and> 0 \<le> b_dmg b"
      using Cons.prems unfolding enemies_loop_alive [OF False] by (rule Cons.IH)
    then show ?thesis
      using s by blast
  qed
qed

lemma bullets_loop_frame:
  "maxhp (player (bullets_loop kept bs g)) = maxhp (player g) \<and>
   lasers (bullets_loop kept bs g) = lasers g"
  by (induction kept bs g rule: bullets_loop.induct)
    (simp_all add: Let_def split: option.split)



lemma bullets_loop_hp:
  "\<forall>b\<in>set bs. b_owner b = OwnEnemy \<longrightarrow> 0 \<le> b_dmg b \<Longrightarrow>
   hp (player (bullets_loop kept bs g)) \<le> hp (player g)"
proof (induction kept bs g rule: bullets_loop.induct)
  case (1 kept g)
  then show ?case by simp
next
  case (2 kept b bs g)
  have rest: "\<forall>b\<in>set bs. b_owner b = OwnEnemy \<longrightarrow> 0 \<le> b_dmg b"
    using "2.prems" by simp
  show ?case
  proof (cases "b_owner b")
    case OwnPlayer
    then show ?thesis
      using "2.IH"(1,2) rest by (simp split: option.split)
  next
    case OwnEnemy
    then have d: "0 \<le> b_dmg b" using "2.prems" by simp
    show ?thesis
    proof (cases "(p_x (player g) - b_x b)\<^sup>2 + (p_y (player g) - b_y b)\<^sup>2
                    \<le> (of_int (p_r (player g) + b_r b))\<^sup>2")
      case True
      have "hp (player (bullets_loop kept bs
               (if shield (player g) \<le> 0
                then g\<lparr>player := (player g)\<lparr>hp := hp (player g) - b_dmg b\<rparr>\<rparr> else g)))
            \<le> hp (player (if shield (player g) \<le> 0
                then g\<lparr>player := (player g)\<lparr>hp := hp (player g) - b_dmg b\<rparr>\<rparr> else g))"
        using "2.IH"(3) OwnEnemy True rest by simp
      also have "\<dots> \<le> hp (player g)" using d by simp
      finally show ?thesis using OwnEnemy True by (simp add: Let_def)
    next
      case False
      then show ?thesis
        using "2.IH"(4) OwnEnemy rest by (simp add: Let_def)
    qed
  qed
qed

lemma bullets_loop_bullets:
  "set (bullets (bullets_loop kept bs g)) \<subseteq> set kept \<union> set bs"
  by (induction kept bs g rule: bullets_loop.induct)
    (auto simp: Let_def split: option.splits if_splits)

lemma contact_loop_hp:
  "hp (player (contact_loop kept es g)) \<le> hp (player g) \<and>
   maxhp (player (contact_loop kept es g)) = maxhp (player g)"
proof (induction kept es g rule: contact_loop.induct)
  case (1 kept g)
  then show ?case by simp
next
  case (2 kept e es g)
  show ?case
  proof (cases "(e_x e - p_x (player g))\<^sup>2 + (e_y e - p_y (player g))\<^sup>2
                  \<le> (of_int (e_r e + p_r (player g)))\<^sup>2")
    case True
    have "hp (player (contact_loop kept es
             (if shield (player g) \<le> 0
              then g\<lparr>player := (player g)\<lparr>hp := hp (player g) - 18\<rparr>\<rparr> else g)))
          \<le> hp (player (if shield (player g) \<le> 0
              then g\<lparr>player := (player g)\<lparr>hp := hp (player g) - 18\<rparr>\<rparr> else g))"
      using 2(1) True by simp
    also have "\<dots> \<le> hp (player g)" by simp
    finally have h: "hp (player (contact_loop kept (e # es) g)) \<le> hp (player g)"
      using True by (simp add: Let_def)
    have "maxhp (player (contact_loop kept (e # es) g)) = maxhp (player g)"
      using 2(1) True by (simp add: Let_def)
    with h show ?thesis by simp
  next
    case False
    then show ?thesis using 2(2) by (simp add: Let_def)
  qed
qed

lemma contact_loop_frame3:
  "bullets (contact_loop kept es g) = bullets g \<and> lasers (contact_loop kept es g) = lasers g"
  by (induction kept es g rule: contact_loop.induct) (simp_all add: Let_def)

subsection \<open>Laser damage\<close>

lemma hypot_nonneg: "0 \<le> hypot a b"
  by (simp add: hypot_def)

lemma hypot_scale: "0 \<le> c \<Longrightarrow> hypot (c * a) (c * b) = c * hypot a b"
proof -
  assume c: "0 \<le> c"
  have "(c * a)\<^sup>2 + (c * b)\<^sup>2 = c\<^sup>2 * (a\<^sup>2 + b\<^sup>2)"
    by (simp add: power_mult_distrib distrib_left)
  then show ?thesis
    using c by (simp add: hypot_def real_sqrt_mult)
qed

lemma hypot_unit: "a\<^sup>2 + b\<^sup>2 = 1 \<Longrightarrow> hypot a b = 1"
  by (simp add: hypot_def)

lemma hypot_commute: "hypot a b = hypot b a"
  by (simp add: hypot_def add.commute)

lemma laser_dist_unit:
  assumes "(l_dx l)\<^sup>2 + (l_dy l)\<^sup>2 = 1"
  shows "laser_dist l e = line_dist l e * (2000 / (2000 + 0.000001))"
proof -
  have h: "hypot (l_dx l) (l_dy l) = 1" using assms by (rule hypot_unit)
  have d: "hypot (l_dy l * 2000) (l_dx l * 2000) = 2000"
    using hypot_scale [of 2000 "l_dy l" "l_dx l"] h
    by (simp add: hypot_commute mult.commute)
  have n: "(l_dy l * 2000) * e_x e - (l_dx l * 2000) * e_y e
             + (l_x l + l_dx l * 2000) * l_y l - (l_y l + l_dy l * 2000) * l_x l
           = 2000 * (l_dy l * (e_x e - l_x l) - l_dx l * (e_y e - l_y l))"
    by (simp add: algebra_simps)
  have "laser_dist l e =
          \<bar>2000 * (l_dy l * (e_x e - l_x l) - l_dx l * (e_y e - l_y l))\<bar> / (2000 + 0.000001)"
    using n d by (simp add: laser_dist_def Let_def)
  also have "\<dots> = line_dist l e * (2000 / (2000 + 0.000001))"
    unfolding line_dist_def h abs_mult by simp
  finally show ?thesis .
qed

lemma beam_hits_unit:
  assumes "(l_dx l)\<^sup>2 + (l_dy l)\<^sup>2 = 1"
  shows "beam_hits l e \<longleftrightarrow> line_dist l e \<le> of_int (e_r e + 4) * (1 + 0.000001 / 2000)"
proof -
  have "laser_dist l e \<le> of_int (e_r e + 4) \<longleftrightarrow>
        line_dist l e * 2000 \<le> of_int (e_r e + 4) * (2000 + 0.000001)"
    unfolding laser_dist_unit [OF assms] by (simp add: field_simps)
  also have "\<dots> \<longleftrightarrow> line_dist l e \<le> of_int (e_r e + 4) * (1 + 0.000001 / 2000)"
    by (simp add: field_simps)
  finally show ?thesis by (simp add: beam_hits_def)
qed

text \<open>The two distances are what their names say, for a direction of length 1.\<close>

lemma unit_split:
  assumes "dx\<^sup>2 + dy\<^sup>2 = (1::real)"
  shows "(a - t * dx)\<^sup>2 + (b - t * dy)\<^sup>2 = (dy * a - dx * b)\<^sup>2 + (dx * a + dy * b - t)\<^sup>2"
proof -
  have "(dy * a - dx * b)\<^sup>2 + (dx * a + dy * b - t)\<^sup>2 =
        (dx\<^sup>2 + dy\<^sup>2) * (a\<^sup>2 + b\<^sup>2) + t\<^sup>2 - 2 * t * (dx * a + dy * b)"
    by (simp add: power2_eq_square algebra_simps)
  moreover have "(a - t * dx)\<^sup>2 + (b - t * dy)\<^sup>2 =
        (a\<^sup>2 + b\<^sup>2) + t\<^sup>2 * (dx\<^sup>2 + dy\<^sup>2) - 2 * t * (dx * a + dy * b)"
    by (simp add: power2_eq_square algebra_simps)
  ultimately show ?thesis using assms by simp
qed

lemma line_dist_least:
  assumes "(l_dx l)\<^sup>2 + (l_dy l)\<^sup>2 = 1"
  shows "line_dist l e \<le> hypot (e_x e - (l_x l + t * l_dx l)) (e_y e - (l_y l + t * l_dy l))"
proof -
  let ?a = "e_x e - l_x l" and ?b = "e_y e - l_y l"
  have "(l_dy l * ?a - l_dx l * ?b)\<^sup>2 \<le> (?a - t * l_dx l)\<^sup>2 + (?b - t * l_dy l)\<^sup>2"
    unfolding unit_split [OF assms] by simp
  then have "sqrt ((l_dy l * ?a - l_dx l * ?b)\<^sup>2)
             \<le> sqrt ((?a - t * l_dx l)\<^sup>2 + (?b - t * l_dy l)\<^sup>2)"
    by (rule real_sqrt_le_mono)
  then show ?thesis
    unfolding line_dist_def hypot_unit [OF assms]
    by (simp add: hypot_def diff_diff_eq)
qed

lemma ray_dist_least:
  assumes "(l_dx l)\<^sup>2 + (l_dy l)\<^sup>2 = 1" and "0 \<le> t"
  shows "ray_dist l e \<le> hypot (e_x e - (l_x l + t * l_dx l)) (e_y e - (l_y l + t * l_dy l))"
proof (cases "l_dx l * (e_x e - l_x l) + l_dy l * (e_y e - l_y l) \<le> 0")
  case True
  let ?a = "e_x e - l_x l" and ?b = "e_y e - l_y l"
  have "0 \<le> t * (- (l_dx l * ?a + l_dy l * ?b))"
    using True assms(2) by (intro mult_nonneg_nonneg) simp_all
  moreover have "(?a - t * l_dx l)\<^sup>2 + (?b - t * l_dy l)\<^sup>2 =
        (?a\<^sup>2 + ?b\<^sup>2) + t\<^sup>2 * ((l_dx l)\<^sup>2 + (l_dy l)\<^sup>2)
          + 2 * (t * (- (l_dx l * ?a + l_dy l * ?b)))"
    by (simp add: power2_eq_square algebra_simps)
  ultimately have "?a\<^sup>2 + ?b\<^sup>2 \<le> (?a - t * l_dx l)\<^sup>2 + (?b - t * l_dy l)\<^sup>2"
    using assms(1) by simp
  then have "sqrt (?a\<^sup>2 + ?b\<^sup>2) \<le> sqrt ((?a - t * l_dx l)\<^sup>2 + (?b - t * l_dy l)\<^sup>2)"
    by (rule real_sqrt_le_mono)
  then show ?thesis
    using True by (simp add: ray_dist_def hypot_def diff_diff_eq)
next
  case False
  then show ?thesis
    using line_dist_least [OF assms(1), of e t] by (simp add: ray_dist_def)
qed

lemma laser_damage_geom:
  "e_x (laser_damage dt l e) = e_x e \<and> e_y (laser_damage dt l e) = e_y e \<and>
   e_r (laser_damage dt l e) = e_r e"
  by (simp add: laser_damage_def)

lemma beam_hits_geom:
  "e_x e' = e_x e \<Longrightarrow> e_y e' = e_y e \<Longrightarrow> e_r e' = e_r e \<Longrightarrow> beam_hits l e' = beam_hits l e"
  by (simp add: beam_hits_def laser_dist_def)

lemma beams_on_enemy:
  "foldl (\<lambda>e l. laser_damage dt l e) e ls =
     e\<lparr>e_hp := e_hp e - (\<Sum>l\<leftarrow>filter (\<lambda>l. beam_hits l e) ls. of_int (l_dmg l) * dt * 8)\<rparr>"
proof (induction ls arbitrary: e)
  case Nil
  then show ?case by simp
next
  case (Cons l ls)
  have h: "(\<lambda>l'. beam_hits l' (laser_damage dt l e)) = (\<lambda>l'. beam_hits l' e)"
    by (rule ext) (rule beam_hits_geom, simp_all add: laser_damage_geom)
  show ?case
  proof (cases "beam_hits l e")
    case True
    then have d: "laser_damage dt l e = e\<lparr>e_hp := e_hp e - of_int (l_dmg l) * dt * 8\<rparr>"
      by (simp add: laser_damage_def beam_hits_def)
    show ?thesis
      using True Cons [of "laser_damage dt l e"] unfolding h
      by (simp add: d algebra_simps)
  next
    case False
    then have d: "laser_damage dt l e = e"
      by (simp add: laser_damage_def beam_hits_def)
    show ?thesis
      using False Cons [of e] by (simp add: d)
  qed
qed

lemma beams_on_enemies:
  "foldl (\<lambda>es l. map (laser_damage dt l) es) es ls =
     map (\<lambda>e. foldl (\<lambda>e l. laser_damage dt l e) e ls) es"
  by (induction ls arbitrary: es) simp_all

lemma phys_lasers_enemies:
  "enemies (phys_lasers dt g) =
     map (\<lambda>e. e\<lparr>e_hp := e_hp e -
            (\<Sum>l\<leftarrow>filter (\<lambda>l. beam_hits l e) (lasers g). of_int (l_dmg l) * dt * 8)\<rparr>)
         (enemies g)"
  by (simp add: phys_lasers_def beams_on_enemies beams_on_enemy)

lemma demo_beam_hits: "beam_hits demo_beam (Enemy 500 600 Chaser 1 0)"
  by (simp add: beam_hits_def laser_dist_def demo_beam_def Enemy_def Let_def hypot_nonneg)

text \<open>
  Claim C2 as stated fails: the hit test measures the distance to the whole line through
  the origin, not to the ray. The enemy 155 units straight behind the origin of the
  player's beam is 155 units from the ray, far more than its radius 12 plus 4, and the
  laser pass still takes \<open>6 \<times> (1/60) \<times> 8 = 0.8\<close> off its 26 hp.
\<close>

theorem laser_hits_behind_origin:
  "ray_dist demo_beam (Enemy 500 600 Chaser 1 0) = 155 \<and>
   of_int (e_r (Enemy 500 600 Chaser 1 0) + 4) = (16::real) \<and>
   map e_hp (enemies laser_demo) = [26] \<and>
   map e_hp (enemies (phys_lasers (1/60) laser_demo)) = [25.2]"
proof -
  have "sqrt 24025 = (155::real)" using real_sqrt_abs [of 155] by simp
  then have 1: "ray_dist demo_beam (Enemy 500 600 Chaser 1 0) = 155"
    by (simp add: ray_dist_def demo_beam_def Enemy_def Let_def hypot_def)
  have 2: "of_int (e_r (Enemy 500 600 Chaser 1 0) + 4) = (16::real)"
    by (simp add: Enemy_def Let_def)
  have 3: "map e_hp (enemies laser_demo) = [26]"
    by (simp add: laser_demo_def Enemy_def Let_def)
  have 4: "map e_hp (enemies (phys_lasers (1/60) laser_demo)) = [25.2]"
    unfolding phys_lasers_enemies
    using demo_beam_hits by (simp add: laser_demo_def) (simp add: Enemy_def Let_def demo_beam_def)
  from 1 2 3 4 show ?thesis by blast
qed

lemma phys_lasers_lasers: "lasers (phys_lasers dt g) = lasers g"
  by (simp add: phys_lasers_def)

lemma phys_pre_lasers:
  "lasers (phys_bullets (phys_enemies dt (phys_timers dt g))) =
     map (laser_update dt) (filter laser_alive (lasers g))"
  by (simp add: phys_bullets_def phys_enemies_def bullets_loop_frame enemies_loop_lasers
      phys_timers_def)

text \<open>
  Claim C2, amended. The beams of a tick are those that were alive before it. The laser
  pass lowers the hp of every enemy by damage \<open>\<times>\<close> elapsed time \<open>\<times> 8\<close> for each beam
  that hits it, changes nothing else of the enemy, and leaves the enemies it does not hit
  as they are. A beam hits an enemy when the quantity \<open>num / den\<close> of the code is at most
  the radius plus 4; for a direction of length 1 that is the case exactly when the distance
  from the enemy to the infinite line through the origin along the direction (on either
  side of the origin) is at most \<open>(radius + 4) \<times> (1 + 0.000001 / 2000)\<close>, the factor
  coming from the \<open>0.000001\<close> added to the length 2000 in the denominator.
\<close>

theorem laser_pass:
  "lasers (phys_bullets (phys_enemies dt (phys_timers dt g))) =
     map (laser_update dt) (filter laser_alive (lasers g)) \<and>
   enemies (phys_lasers dt g) =
     map (\<lambda>e. e\<lparr>e_hp := e_hp e -
            (\<Sum>l\<leftarrow>filter (\<lambda>l. beam_hits l e) (lasers g). of_int (l_dmg l) * dt * 8)\<rparr>)
         (enemies g) \<and>
   ((l_dx l)\<^sup>2 + (l_dy l)\<^sup>2 = 1 \<longrightarrow>
      (beam_hits l e \<longleftrightarrow> line_dist l e \<le> of_int (e_r e + 4) * (1 + 0.000001 / 2000)))"
  using phys_pre_lasers [of dt g] phys_lasers_enemies [of dt g] beam_hits_unit [of l e]
  by blast

theorem laser_pass_witness:
  "(l_dx demo_beam)\<^sup>2 + (l_dy demo_beam)\<^sup>2 = 1 \<and>
   line_dist demo_beam (Enemy 505 100 Chaser 1 0) = 5 \<and>
   beam_hits demo_beam (Enemy 505 100 Chaser 1 0) \<and>
   line_dist demo_beam (Enemy 600 100 Chaser 1 0) = 100 \<and>
   \<not> beam_hits demo_beam (Enemy 600 100 Chaser 1 0)"
proof -
  have u: "(l_dx demo_beam)\<^sup>2 + (l_dy demo_beam)\<^sup>2 = 1"
    by (simp add: demo_beam_def)
  have h: "hypot (l_dx demo_beam) (l_dy demo_beam) = 1"
    using u by (rule hypot_unit)
  have 1: "line_dist demo_beam (Enemy 505 100 Chaser 1 0) = 5"
    unfolding line_dist_def h by (simp add: demo_beam_def Enemy_def Let_def)
  have 2: "line_dist demo_beam (Enemy 600 100 Chaser 1 0) = 100"
    unfolding line_dist_def h by (simp add: demo_beam_def Enemy_def Let_def)
  have r: "e_r (Enemy 505 100 Chaser 1 0) = 12" "e_r (Enemy 600 100 Chaser 1 0) = 12"
    by (simp_all add: Enemy_def Let_def)
  from laser_pass [where l = demo_beam and e = "Enemy 505 100 Chaser 1 0"]
    laser_pass [where l = demo_beam and e = "Enemy 600 100 Chaser 1 0"] u 1 2 r
  show ?thesis by simp
qed

subsection \<open>The enemy pass and its rewards\<close>



lemma phys_timers_hp:
  "hp (player (phys_timers dt g)) = hp (player g) \<and>
   maxhp (player (phys_timers dt g)) = maxhp (player g)"
  by (simp add: phys_timers_def Player_update_def)












subsection \<open>The player's hp over a tick\<close>

lemma input_move_hp:
  "hp (player (input_move dt inp g)) = hp (player g) \<and>
   maxhp (player (input_move dt inp g)) = maxhp (player g) \<and>
   bullets (input_move dt inp g) = bullets g"
  by (simp add: input_move_def Let_def case_prod_beta)

lemma input_switch_hp:
  "hp (player (input_switch inp g)) = hp (player g) \<and>
   maxhp (player (input_switch inp g)) = maxhp (player g) \<and>
   bullets (input_switch inp g) = bullets g"
  by (simp add: input_switch_def switch_weapon_def Let_def)

lemma bomb_loop_hp:
  "hp (player (fst (bomb_loop kept es k g))) = hp (player g) \<and>
   maxhp (player (fst (bomb_loop kept es k g))) = maxhp (player g) \<and>
   bullets (fst (bomb_loop kept es k g)) = bullets g"
  by (induction kept es k g rule: bomb_loop.induct) (simp_all add: Let_def)

lemma input_bomb_hp:
  "hp (player (input_bomb inp g)) = hp (player g) \<and>
   maxhp (player (input_bomb inp g)) = maxhp (player g) \<and>
   bullets (input_bomb inp g) = bullets g"
  using bomb_loop_hp [of "[]" "enemies g" 0
      "g\<lparr>player := (player g)\<lparr>bombs := bombs (player g) - 1\<rparr>, last_bomb := clock2 inp\<rparr>"]
  by (simp add: input_bomb_def bomb_explode_def Let_def case_prod_beta)

lemma fire_hp:
  "hp (player (fire w g)) = hp (player g) \<and> maxhp (player (fire w g)) = maxhp (player g)"
  by (cases w) (simp_all add: fire_def Let_def)

lemma fire_bullets:
  "b \<in> set (bullets (fire w g)) \<Longrightarrow> b \<in> set (bullets g) \<or> b_owner b = OwnPlayer"
  by (cases w) (auto simp: fire_def Let_def split: if_splits)

lemma input_fire_hp:
  "input_fire inp g = Inr g' \<Longrightarrow>
   hp (player g') = hp (player g) \<and> maxhp (player g') = maxhp (player g)"
  by (auto simp: input_fire_def Let_def fire_hp split: if_splits sum.splits)

lemma input_fire_bullets:
  "input_fire inp g = Inr g' \<Longrightarrow> b \<in> set (bullets g') \<Longrightarrow>
   b \<in> set (bullets g) \<or> b_owner b = OwnPlayer"
  by (auto simp: input_fire_def Let_def split: if_splits sum.splits dest: fire_bullets)

lemma input_play_inv:
  assumes "input_play dt inp g = Inr g'" and "tick_inv g"
  shows "tick_inv g'"
proof -
  let ?g2 = "input_bomb inp (input_switch inp (input_move dt inp g))"
  have f: "input_fire inp ?g2 = Inr g'"
    using assms(1) by (simp add: input_play_def)
  have h: "hp (player g') = hp (player g) \<and> maxhp (player g') = maxhp (player g)"
    using input_fire_hp [OF f] by (simp add: input_bomb_hp input_switch_hp input_move_hp)
  have b: "bullets ?g2 = bullets g"
    by (simp add: input_bomb_hp input_switch_hp input_move_hp)
  have "\<forall>b\<in>set (bullets g'). b_owner b = OwnEnemy \<longrightarrow> 0 \<le> b_dmg b"
  proof (intro ballI impI)
    fix c assume c: "c \<in> set (bullets g')" and o: "b_owner c = OwnEnemy"
    from input_fire_bullets [OF f c] o have "c \<in> set (bullets g)"
      by (simp add: b)
    with assms(2) o show "0 \<le> b_dmg c"
      by (simp add: tick_inv_def list_all_iff)
  qed
  with h assms(2) show ?thesis
    by (simp add: tick_inv_def list_all_iff)
qed

lemma phys_timers_bullets:
  "b \<in> set (bullets (phys_timers dt g)) \<Longrightarrow>
   \<exists>b0\<in>set (bullets g). b_owner b = b_owner b0 \<and> b_dmg b = b_dmg b0"
  by (auto simp: phys_timers_def bullet_update_def)

lemma update_physics_inv:
  assumes "tick_inv g"
  shows "tick_inv (update_physics dt g) \<and>
         hp (player (update_physics dt g)) \<le> hp (player g) \<and>
         maxhp (player (update_physics dt g)) = maxhp (player g)"
proof -
  let ?g1 = "phys_timers dt g"
  let ?g2 = "phys_enemies dt ?g1"
  let ?g3 = "phys_bullets ?g2"
  let ?g4 = "phys_lasers dt ?g3"
  have ok: "\<And>b. b \<in> set (bullets g) \<Longrightarrow> b_owner b = OwnEnemy \<Longrightarrow> 0 \<le> b_dmg b"
    using assms by (simp add: tick_inv_def list_all_iff)
  have ok1: "\<And>b. b \<in> set (bullets ?g1) \<Longrightarrow> b_owner b = OwnEnemy \<Longrightarrow> 0 \<le> b_dmg b"
    using phys_timers_bullets ok by metis
  have ok2: "\<And>b. b \<in> set (bullets ?g2) \<Longrightarrow> b_owner b = OwnEnemy \<Longrightarrow> 0 \<le> b_dmg b"
    unfolding phys_enemies_def using enemies_loop_bullets ok1 by blast
  have ok3: "\<And>b. b \<in> set (bullets ?g3) \<Longrightarrow> b_owner b = OwnEnemy \<Longrightarrow> 0 \<le> b_dmg b"
    unfolding phys_bullets_def using bullets_loop_bullets [of "[]" "bullets ?g2" ?g2] ok2
    by auto
  have h2: "hp (player ?g2) = hp (player g) \<and> maxhp (player ?g2) = maxhp (player g)"
    by (simp add: phys_enemies_def enemies_loop_hp phys_timers_hp)
  have h3: "hp (player ?g3) \<le> hp (player ?g2)"
    unfolding phys_bullets_def using ok2 by (intro bullets_loop_hp) blast
  have m3: "maxhp (player ?g3) = maxhp (player ?g2)"
    by (simp add: phys_bullets_def bullets_loop_frame)
  have p4: "player ?g4 = player ?g3 \<and> bullets ?g4 = bullets ?g3"
    by (simp add: phys_lasers_def)
  have h5: "hp (player (phys_contact ?g4)) \<le> hp (player ?g4) \<and>
            maxhp (player (phys_contact ?g4)) = maxhp (player ?g4)"
    by (simp add: phys_contact_def contact_loop_hp)
  have b5: "bullets (phys_contact ?g4) = bullets ?g3"
    by (simp add: phys_contact_def contact_loop_frame3 p4)
  have hp: "hp (player (update_physics dt g)) \<le> hp (player g)"
    unfolding update_physics_def using h5 p4 h3 h2 by simp
  have mx: "maxhp (player (update_physics dt g)) = maxhp (player g)"
    unfolding update_physics_def using h5 p4 m3 h2 by simp
  have bs: "bullets (update_physics dt g) = bullets ?g3"
    unfolding update_physics_def by (rule b5)
  have "tick_inv (update_physics dt g)"
    using hp mx assms ok3 by (simp add: tick_inv_def list_all_iff bs)
  with hp mx show ?thesis by simp
qed

lemma pickup_inv:
  "hp p \<le> maxhp p \<Longrightarrow> 0 \<le> maxhp p \<Longrightarrow>
   hp (pickup k p) \<le> maxhp (pickup k p) \<and> maxhp (pickup k p) = maxhp p"
  by (cases k) (simp_all add: pickup_def clamp_def)

lemma pickups_inv:
  "hp p \<le> maxhp p \<Longrightarrow> 0 \<le> maxhp p \<Longrightarrow>
   hp (foldl (\<lambda>p q. pickup (u_type q) p) p qs)
     \<le> maxhp (foldl (\<lambda>p q. pickup (u_type q) p) p qs) \<and>
   maxhp (foldl (\<lambda>p q. pickup (u_type q) p) p qs) = maxhp p"
proof (induction qs arbitrary: p)
  case Nil
  then show ?case by simp
next
  case (Cons q qs)
  have "hp (pickup (u_type q) p) \<le> maxhp (pickup (u_type q) p)"
    "maxhp (pickup (u_type q) p) = maxhp p"
    using pickup_inv [OF Cons.prems, of "u_type q"] by simp_all
  with Cons.IH [of "pickup (u_type q) p"] Cons.prems show ?case by simp
qed

lemma powerups_loop_frame:
  "bullets (powerups_loop dt kept qs g) = bullets g \<and>
   state (powerups_loop dt kept qs g) = state g \<and>
   hiscore (powerups_loop dt kept qs g) = hiscore g"
  by (induction dt kept qs g rule: powerups_loop.induct) (simp_all add: Let_def)

lemma update_powerups_inv:
  assumes "tick_inv g"
  shows "tick_inv (update_powerups dt g) \<and>
         maxhp (player (update_powerups dt g)) = maxhp (player g)"
proof -
  have p: "hp (player g) \<le> maxhp (player g)" "0 \<le> maxhp (player g)"
    using assms by (simp_all add: tick_inv_def)
  have "hp (player (update_powerups dt g)) \<le> maxhp (player (update_powerups dt g)) \<and>
        maxhp (player (update_powerups dt g)) = maxhp (player g)"
    unfolding update_powerups_def powerups_loop_player by (rule pickups_inv [OF p])
  moreover have "bullets (update_powerups dt g) = bullets g"
    by (simp add: update_powerups_def powerups_loop_frame)
  ultimately show ?thesis
    using assms by (simp add: tick_inv_def)
qed

lemma spawn_enemy_edge_frame:
  "player (spawn_enemy_edge k lvl g) = player g \<and>
   bullets (spawn_enemy_edge k lvl g) = bullets g \<and>
   state (spawn_enemy_edge k lvl g) = state g \<and>
   hiscore (spawn_enemy_edge k lvl g) = hiscore g"
  by (simp add: spawn_enemy_edge_def Let_def case_prod_beta split: option.split)

lemma spawn_n_frame:
  "player (spawn_n n lvl g) = player g \<and> bullets (spawn_n n lvl g) = bullets g \<and>
   state (spawn_n n lvl g) = state g \<and> hiscore (spawn_n n lvl g) = hiscore g"
  by (induction n lvl g rule: spawn_n.induct) (simp_all add: spawn_enemy_edge_frame)

lemma spawn_wave_frame1:
  "player (spawn_wave g) = player g \<and> bullets (spawn_wave g) = bullets g"
  by (simp add: spawn_wave_def Let_def case_prod_beta spawn_n_frame spawn_n_sched)

lemma spawn_wave_frame2:
  "state (spawn_wave g) = state g \<and> hiscore (spawn_wave g) = hiscore g"
  by (simp add: spawn_wave_def Let_def case_prod_beta spawn_n_frame spawn_n_sched)

lemmas spawn_wave_frame = spawn_wave_frame1 spawn_wave_frame2

lemma update_wave_frame:
  "player (update_wave_and_spawning dt inp g) = player g \<and>
   bullets (update_wave_and_spawning dt inp g) = bullets g \<and>
   state (update_wave_and_spawning dt inp g) = state g \<and>
   hiscore (update_wave_and_spawning dt inp g) = hiscore g"
  by (cases "wave_state g")
    (simp_all add: update_wave_and_spawning_def Let_def case_prod_beta spawn_wave_frame
      spawn_enemy_edge_frame)

lemma check_death_frame:
  "player (check_death g) = player g \<and> bullets (check_death g) = bullets g"
  by (simp add: check_death_def Let_def)

lemma check_death_state:
  "(hp (player g) \<le> 0 \<longrightarrow>
      state (check_death g) = Gameover \<and>
      hiscore (check_death g) = max (hiscore g) (score (player g))) \<and>
   (0 < hp (player g) \<longrightarrow>
      state (check_death g) = state g \<and> hiscore (check_death g) = hiscore g)"
  by (simp add: check_death_def Let_def max_def)

lemma input_pre_state:
  "state (input_move dt inp g) = state g \<and> hiscore (input_move dt inp g) = hiscore g \<and>
   state (input_switch inp g) = state g \<and> hiscore (input_switch inp g) = hiscore g"
  by (simp add: input_move_def input_switch_def Let_def case_prod_beta)

lemma bomb_loop_state:
  "state (fst (bomb_loop kept es k g)) = state g \<and>
   hiscore (fst (bomb_loop kept es k g)) = hiscore g"
  by (induction kept es k g rule: bomb_loop.induct) (simp_all add: Let_def)

lemma input_bomb_state:
  "state (input_bomb inp g) = state g \<and> hiscore (input_bomb inp g) = hiscore g"
  using bomb_loop_state [of "[]" "enemies g" 0
      "g\<lparr>player := (player g)\<lparr>bombs := bombs (player g) - 1\<rparr>, last_bomb := clock2 inp\<rparr>"]
  by (simp add: input_bomb_def bomb_explode_def Let_def case_prod_beta)

lemma fire_state: "state (fire w g) = state g \<and> hiscore (fire w g) = hiscore g"
  by (cases w) (simp_all add: fire_def Let_def)

lemma input_play_state:
  "input_play dt inp g = Inr g' \<Longrightarrow> state g' = state g \<and> hiscore g' = hiscore g"
  by (auto simp: input_play_def input_fire_def Let_def fire_state input_bomb_state
      input_pre_state split: if_splits sum.splits)

lemma enemy_reward_state:
  "state (enemy_reward e g) = state g \<and> hiscore (enemy_reward e g) = hiscore g"
  by (simp add: enemy_reward_def drop_powerup_def Let_def case_prod_beta)

lemma enemies_loop_state:
  "state (enemies_loop dt kept es g) = state g \<and>
   hiscore (enemies_loop dt kept es g) = hiscore g"
proof (induction es arbitrary: kept g)
  case Nil
  then show ?case by simp
next
  case (Cons e0 es)
  show ?case
  proof (cases "e_hp e0 \<le> 0")
    case True
    show ?thesis
      unfolding enemies_loop_dead [OF True] by (simp add: Cons.IH enemy_reward_state)
  next
    case False
    show ?thesis
      unfolding enemies_loop_alive [OF False] by (simp add: Cons.IH)
  qed
qed

lemma bullets_loop_state:
  "state (bullets_loop kept bs g) = state g \<and> hiscore (bullets_loop kept bs g) = hiscore g"
  by (induction kept bs g rule: bullets_loop.induct)
    (simp_all add: Let_def split: option.split)

lemma contact_loop_state:
  "state (contact_loop kept es g) = state g \<and> hiscore (contact_loop kept es g) = hiscore g"
  by (induction kept es g rule: contact_loop.induct) (simp_all add: Let_def)

lemma update_physics_state:
  "state (update_physics dt g) = state g \<and> hiscore (update_physics dt g) = hiscore g"
  by (simp add: update_physics_def phys_contact_def contact_loop_state phys_lasers_def
      phys_bullets_def bullets_loop_state phys_enemies_def enemies_loop_state phys_timers_def)

lemma input_play_returns:
  assumes "- 3 \<le> weapon_index (player g)" and "weapon_index (player g) < 3"
  shows "\<exists>g'. input_play dt inp g = Inr g'"
proof -
  have "- 3 \<le> weapon_index (player (input_move dt inp g)) \<and>
        weapon_index (player (input_move dt inp g)) < 3"
    using assms by (simp add: input_move_weapon)
  then have "- 3 \<le> weapon_index (player (input_switch inp (input_move dt inp g))) \<and>
             weapon_index (player (input_switch inp (input_move dt inp g))) < 3"
    using input_switch_weapon by blast
  then show ?thesis
    unfolding input_play_def
    by (intro input_fire_returns) (simp_all add: input_bomb_player)
qed

text \<open>
  Claim C1, amended. A tick of the play state returns whenever the weapon index is valid.
  If the hp is at most the maximum before the tick (with a maximum that is not negative and
  no enemy bullet of negative damage), the same holds after it, and the maximum is
  unchanged: no step raises the hp above the maximum. There is no lower bound: the hp may
  end below 0. The check at the end of the tick sets the state to game over exactly when
  the hp is then 0 or less, and the hi-score becomes the larger of the old hi-score and the
  score; otherwise state and hi-score stay as they were.
\<close>

theorem hp_over_tick:
  "(- 3 \<le> weapon_index (player g) \<and> weapon_index (player g) < 3 \<longrightarrow>
      (\<exists>g'. play_tick dt inp g = Inr g')) \<and>
   (\<forall>g'. play_tick dt inp g = Inr g' \<and> tick_inv g \<longrightarrow>
      tick_inv g' \<and> hp (player g') \<le> maxhp (player g') \<and>
      maxhp (player g') = maxhp (player g) \<and>
      (hp (player g') \<le> 0 \<longrightarrow>
         state g' = Gameover \<and> hiscore g' = max (hiscore g) (score (player g'))) \<and>
      (0 < hp (player g') \<longrightarrow> state g' = state g \<and> hiscore g' = hiscore g))"
proof (intro conjI impI allI)
  assume "- 3 \<le> weapon_index (player g) \<and> weapon_index (player g) < 3"
  then obtain g1 where "input_play dt inp g = Inr g1"
    using input_play_returns [of g dt inp] by blast
  then show "\<exists>g'. play_tick dt inp g = Inr g'"
    by (simp add: play_tick_def)
next
  fix g'
  assume a: "play_tick dt inp g = Inr g' \<and> tick_inv g"
  then obtain g1 where g1: "input_play dt inp g = Inr g1"
    and g': "g' = check_death (update_wave_and_spawning dt inp
                     (update_powerups dt (update_physics dt g1)))"
    by (auto simp: play_tick_def split: sum.splits)
  let ?g2 = "update_physics dt g1"
  let ?g3 = "update_powerups dt ?g2"
  let ?g4 = "update_wave_and_spawning dt inp ?g3"
  have i1: "tick_inv g1" using input_play_inv [OF g1] a by simp
  have m1: "maxhp (player g1) = maxhp (player g)"
    using input_fire_hp [of inp "input_bomb inp (input_switch inp (input_move dt inp g))" g1] g1
    by (simp add: input_play_def input_bomb_hp input_switch_hp input_move_hp)
  have i2: "tick_inv ?g2" "maxhp (player ?g2) = maxhp (player g1)"
    using update_physics_inv [OF i1, of dt] by simp_all
  have i3: "tick_inv ?g3" "maxhp (player ?g3) = maxhp (player ?g2)"
    using update_powerups_inv [OF i2(1), of dt] by simp_all
  have i4: "tick_inv ?g4" "player ?g4 = player ?g3"
    using i3(1) by (simp_all add: tick_inv_def update_wave_frame)
  have s4: "state ?g4 = state g \<and> hiscore ?g4 = hiscore g"
    using input_play_state [OF g1]
    by (simp add: update_wave_frame update_powerups_def powerups_loop_frame
        update_physics_state)
  have p': "player g' = player ?g4" "bullets g' = bullets ?g4"
    by (simp_all add: g' check_death_frame)
  show "tick_inv g'"
    using i4(1) by (simp add: tick_inv_def p')
  show "hp (player g') \<le> maxhp (player g')"
    using i4(1) by (simp add: tick_inv_def p')
  show "maxhp (player g') = maxhp (player g)"
    by (simp add: p' i4(2) i3(2) i2(2) m1)
  { assume "hp (player g') \<le> 0"
    then have "hp (player ?g4) \<le> 0" by (simp add: p')
    with check_death_state [of ?g4] s4
    show "state g' = Gameover" "hiscore g' = max (hiscore g) (score (player g'))"
      by (simp_all add: g' check_death_frame) }
  { assume "0 < hp (player g')"
    then have "0 < hp (player ?g4)" by (simp add: p')
    with check_death_state [of ?g4] s4
    show "state g' = state g" "hiscore g' = hiscore g"
      by (simp_all add: g') }
qed

lemma death_demo_input:
  "input_play (1/60) no_keys death_demo =
     Inr (input_switch no_keys (input_move (1/60) no_keys death_demo))"
  by (simp add: input_play_def input_fire_def input_bomb_def no_keys_def)

lemma death_demo_facts:
  "hp (player death_demo) = 10 \<and> maxhp (player death_demo) = 120 \<and>
   score (player death_demo) = 40 \<and> shield (player death_demo) = 0 \<and>
   hiscore death_demo = 0 \<and> state death_demo = Play"
  by (simp add: death_demo_def demo_game_def start_game_def Game_init_def reset_run_def
      Player_def Let_def PLAYER_MAX_HP_def dict_get_def)

lemma death_demo_lists:
  "enemies death_demo = [Enemy 500 455 Chaser 1 0] \<and> bullets death_demo = [] \<and>
   lasers death_demo = [] \<and> powerups death_demo = []"
  by (simp add: death_demo_def demo_game_def start_game_def Game_init_def reset_run_def
      Let_def)

lemma death_demo_pos:
  "p_x (player death_demo) = 500 \<and> p_y (player death_demo) = 455 \<and>
   p_r (player death_demo) = 16"
  by (simp add: death_demo_def demo_game_player)

lemma no_keys_move:
  "input_switch no_keys (input_move dt no_keys g) =
     g\<lparr>player := (player g)\<lparr>p_x := clamp (p_x (player g)) 20 (of_int (WIDTH - 20)),
                            p_y := clamp (p_y (player g)) 20 (of_int (HEIGHT - 20))\<rparr>\<rparr>"
  by (simp add: input_switch_def input_move_def move_dir_def hypot_def no_keys_def Let_def)

lemma death_demo_physics:
  "hp (player (update_physics (1/60)
      (input_switch no_keys (input_move (1/60) no_keys death_demo)))) = - 8 \<and>
   powerups (update_physics (1/60)
      (input_switch no_keys (input_move (1/60) no_keys death_demo))) = []"
proof -
  define g1 where "g1 = input_switch no_keys (input_move (1/60) no_keys death_demo)"
  define gt where "gt = phys_timers (1/60) g1"
  define e' where "e' = (Enemy 500 455 Chaser 1 0)\<lparr>e_t := 1/60\<rparr>"
  have p1: "p_x (player g1) = 500" "p_y (player g1) = 455" "p_r (player g1) = 16"
    "hp (player g1) = 10" "shield (player g1) = 0"
    by (simp_all add: g1_def no_keys_move death_demo_pos death_demo_facts clamp_def
        WIDTH_def HEIGHT_def)
  have l1: "enemies g1 = [Enemy 500 455 Chaser 1 0]" "bullets g1 = []" "lasers g1 = []"
    "powerups g1 = []"
    by (simp_all add: g1_def no_keys_move death_demo_lists)
  have pt: "p_x (player gt) = 500" "p_y (player gt) = 455" "p_r (player gt) = 16"
    "hp (player gt) = 10" "shield (player gt) = 0"
    by (simp_all add: gt_def phys_timers_def Player_update_def p1)
  have lt: "enemies gt = [Enemy 500 455 Chaser 1 0]" "bullets gt = []" "lasers gt = []"
    "powerups gt = []"
    by (simp_all add: gt_def phys_timers_def l1)
  have u: "enemy_update (1/60) (player gt) (Enemy 500 455 Chaser 1 0) = (e', [])"
    by (simp add: enemy_update_def Enemy_def Let_def hypot_def clamp_def WIDTH_def
        HEIGHT_def pt e'_def)
  have a: "\<not> e_hp (Enemy 500 455 Chaser 1 0) \<le> 0"
    by (simp add: Enemy_def Let_def)
  have ge: "phys_enemies (1/60) gt = gt\<lparr>bullets := [], enemies := [e']\<rparr>"
    unfolding phys_enemies_def lt enemies_loop_alive [OF a]
    by (simp add: moved_def u lt)
  have gb: "phys_bullets (phys_enemies (1/60) gt) = gt\<lparr>bullets := [], enemies := [e']\<rparr>"
    by (simp add: phys_bullets_def ge)
  have gl: "phys_lasers (1/60) (phys_bullets (phys_enemies (1/60) gt)) =
            gt\<lparr>bullets := [], enemies := [e']\<rparr>"
    by (simp add: phys_lasers_def gb lt)
  have gc: "update_physics (1/60) g1 =
            gt\<lparr>bullets := [], player := (player gt)\<lparr>hp := hp (player gt) - 18\<rparr>,
               enemies := []\<rparr>"
    unfolding update_physics_def gt_def [symmetric] gl
    by (simp add: phys_contact_def pt e'_def Enemy_def Let_def)
  show ?thesis
    unfolding g1_def [symmetric] gc by (simp add: pt lt)
qed

lemma death_demo_tick:
  "play_tick (1/60) no_keys death_demo =
     Inr (check_death (update_wave_and_spawning (1/60) no_keys
            (update_powerups (1/60) (update_physics (1/60)
               (input_switch no_keys (input_move (1/60) no_keys death_demo)))))) \<and>
   hp (player (check_death (update_wave_and_spawning (1/60) no_keys
            (update_powerups (1/60) (update_physics (1/60)
               (input_switch no_keys (input_move (1/60) no_keys death_demo))))))) = - 8"
proof -
  let ?g2 = "update_physics (1/60) (input_switch no_keys (input_move (1/60) no_keys death_demo))"
  have "player (update_powerups (1/60) ?g2) = player ?g2"
    unfolding update_powerups_def powerups_loop_player
    by (simp add: death_demo_physics)
  then show ?thesis
    by (simp add: play_tick_def death_demo_input check_death_frame update_wave_frame
        death_demo_physics)
qed

text \<open>
  Claim C1 as stated fails at the lower bound: damage is subtracted without a floor. In
  this tick the player has 10 hp, the chaser on the player's position deals 18, and the
  tick ends with -8 hp.
\<close>

theorem hp_falls_below_zero:
  "hp (player death_demo) = 10 \<and>
   \<not> isl (play_tick (1/60) no_keys death_demo) \<and>
   hp (player (projr (play_tick (1/60) no_keys death_demo))) = - 8"
  using death_demo_tick by (simp add: death_demo_facts)

lemma demo_game_inv: "tick_inv demo_game"
  by (simp add: tick_inv_def demo_game_def start_game_def Game_init_def reset_run_def
      Player_def Let_def PLAYER_MAX_HP_def dict_get_def)

lemma death_demo_inv: "tick_inv death_demo"
  by (simp add: tick_inv_def death_demo_facts death_demo_lists)

theorem hp_over_tick_witness:
  "tick_inv demo_game \<and>
   \<not> isl (play_tick (1/60) no_keys demo_game) \<and>
   hp (player (projr (play_tick (1/60) no_keys demo_game)))
     \<le> maxhp (player (projr (play_tick (1/60) no_keys demo_game))) \<and>
   tick_inv death_demo \<and>
   state (projr (play_tick (1/60) no_keys death_demo)) = Gameover \<and>
   hiscore (projr (play_tick (1/60) no_keys death_demo)) =
     max 0 (score (player (projr (play_tick (1/60) no_keys death_demo))))"
proof -
  have w: "- 3 \<le> weapon_index (player demo_game) \<and> weapon_index (player demo_game) < 3"
    by (simp add: demo_game_weapon)
  obtain g' where g': "play_tick (1/60) no_keys demo_game = Inr g'"
    using hp_over_tick [of demo_game "1/60" no_keys] w by blast
  have 1: "hp (player g') \<le> maxhp (player g')"
    using hp_over_tick [of demo_game "1/60" no_keys] g' demo_game_inv by blast
  obtain d where d: "play_tick (1/60) no_keys death_demo = Inr d" "hp (player d) = - 8"
    using death_demo_tick by blast
  have 2: "state d = Gameover \<and> hiscore d = max (hiscore death_demo) (score (player d))"
    using hp_over_tick [of death_demo "1/60" no_keys] d death_demo_inv by simp
  show ?thesis
    using g' 1 d 2 demo_game_inv death_demo_inv by (simp add: death_demo_facts)
qed

end
